theory Spec2Isabelle
  imports Complex_Main "HOL-Library.Multiset"
begin

section \<open>Data model\<close>

text \<open>
  The records of \<^verbatim>\<open>types.ts\<close> as the components use them. JavaScript numbers are
  modelled as real numbers: sums, differences and quotients are exact, and the values
  \<^verbatim>\<open>NaN\<close> and \<^verbatim>\<open>Infinity\<close> have no counterpart, except in what \<^verbatim>\<open>parseInt\<close> returns,
  which has a type of its own. The field \<^verbatim>\<open>id\<close> of an expense is
  called \<open>ident\<close>, since \<open>id\<close> is the identity function of HOL.
\<close>

record Expense =
  ident :: string
  amount :: real
  category :: string
  description :: string
  date :: string

record Budget =
  category :: string
  limit :: real

text \<open>The object literal built for each budget in \<^verbatim>\<open>categoryBreakdown\<close>.\<close>

record BreakdownEntry =
  category :: string
  limit :: real
  spent :: real
  remaining :: real
  percentage :: real

section \<open>The JavaScript runtime\<close>

text \<open>
  What the code asks of the \<^verbatim>\<open>Date\<close> object and of number printing depends on the
  engine, the locale and the time zone, so it is a parameter of the model. \<open>'t\<close> is the
  time value of a valid \<^verbatim>\<open>Date\<close>; \<open>Date_parse\<close> is \<^verbatim>\<open>new Date(s)\<close>, with \<open>None\<close> for
  an invalid date (the time value \<^verbatim>\<open>NaN\<close>).

  \<open>Number_of_nat n\<close> is the Number that \<^verbatim>\<open>parseInt\<close> makes of a run of decimal digits
  whose value is \<open>n\<close>: a double, so \<open>n\<close> itself up to \<open>2^53\<close> and a rounded integer beyond,
  where an engine may also ignore the digits after the twentieth; \<open>None\<close> is \<^verbatim>\<open>Infinity\<close>.
  \<open>Number_toString\<close> is \<^verbatim>\<open>toString\<close> on a finite Number: the decimal digits of an integer
  up to \<open>2^53\<close>, shortest round-trip digits beyond, exponent notation from \<open>10^21\<close> on.
\<close>

record 't js_runtime =
  Date_parse :: "string \<Rightarrow> 't option"
  getMonth :: "'t \<Rightarrow> nat"
  getFullYear :: "'t \<Rightarrow> int"
  toISOString :: "'t \<Rightarrow> string"
  toLocaleDateString :: "'t \<Rightarrow> string"
  Number_of_nat :: "nat \<Rightarrow> nat option"
  Number_toString :: "real \<Rightarrow> string"

section \<open>Array.prototype.sort\<close>

text \<open>
  \<^verbatim>\<open>xs.sort(cmp)\<close> is a stable sort (ECMAScript 2019): an element is placed before
  the first later element that the comparator does not put in front of it. It is
  modelled by insertion from the right.
\<close>

fun insert_by :: "('a \<Rightarrow> 'a \<Rightarrow> real) \<Rightarrow> 'a \<Rightarrow> 'a list \<Rightarrow> 'a list" where
  "insert_by cmp x [] = [x]"
| "insert_by cmp x (y # ys) =
     (if cmp x y \<le> 0 then x # y # ys else y # insert_by cmp x ys)"

fun js_sort :: "('a \<Rightarrow> 'a \<Rightarrow> real) \<Rightarrow> 'a list \<Rightarrow> 'a list" where
  "js_sort cmp [] = []"
| "js_sort cmp (x # xs) = insert_by cmp x (js_sort cmp xs)"

section \<open>Dashboard: the aggregation\<close>

text \<open>\<^verbatim>\<open>expenses.filter(e => { const d = new Date(e.date); return d.getMonth() === currentMonth && d.getFullYear() === currentYear; })\<close>\<close>

definition filteredExpenses ::
  "'t js_runtime \<Rightarrow> nat \<Rightarrow> int \<Rightarrow> Expense list \<Rightarrow> Expense list" where
  "filteredExpenses rt currentMonth currentYear expenses =
     filter (\<lambda>e. case Date_parse rt (date e) of
                    None \<Rightarrow> False
                  | Some d \<Rightarrow> getMonth rt d = currentMonth \<and> getFullYear rt d = currentYear)
       expenses"

text \<open>\<^verbatim>\<open>filteredExpenses.reduce((sum, e) => sum + e.amount, 0)\<close>\<close>

definition totalSpent :: "Expense list \<Rightarrow> real" where
  "totalSpent filtered = foldl (\<lambda>sum e. sum + amount e) 0 filtered"

text \<open>\<^verbatim>\<open>budgets.reduce((sum, b) => sum + b.limit, 0)\<close>\<close>

definition totalBudget :: "Budget list \<Rightarrow> real" where
  "totalBudget budgets = foldl (\<lambda>sum b. sum + Budget.limit b) 0 budgets"

definition currentBalance :: "Budget list \<Rightarrow> Expense list \<Rightarrow> real" where
  "currentBalance budgets filtered = totalBudget budgets - totalSpent filtered"

text \<open>The body of the \<^verbatim>\<open>budgets.map\<close> callback of \<^verbatim>\<open>categoryBreakdown\<close>.\<close>

definition breakdownEntry :: "Expense list \<Rightarrow> Budget \<Rightarrow> BreakdownEntry" where
  "breakdownEntry filtered budget =
     (let spent = foldl (\<lambda>sum e. sum + amount e) 0
                    (filter (\<lambda>e. Expense.category e = Budget.category budget) filtered);
          remaining = Budget.limit budget - spent;
          percentage = (if Budget.limit budget > 0
                        then (spent / Budget.limit budget) * 100 else 0)
      in \<lparr> BreakdownEntry.category = Budget.category budget,
           BreakdownEntry.limit = Budget.limit budget,
           spent = spent, remaining = remaining, percentage = percentage \<rparr>)"

text \<open>\<^verbatim>\<open>budgets.map(...).sort((a, b) => b.spent - a.spent)\<close>\<close>

definition categoryBreakdown :: "Budget list \<Rightarrow> Expense list \<Rightarrow> BreakdownEntry list" where
  "categoryBreakdown budgets filtered =
     js_sort (\<lambda>a b. spent b - spent a) (map (breakdownEntry filtered) budgets)"

section \<open>Strings and numbers of the runtime\<close>

definition is_digit :: "char \<Rightarrow> bool" where
  "is_digit c = (48 \<le> (of_char c :: nat) \<and> (of_char c :: nat) \<le> 57)"

definition digit_value :: "char \<Rightarrow> nat" where
  "digit_value c = of_char c - 48"

definition digit_char :: "nat \<Rightarrow> char" where
  "digit_char n = ''0123456789'' ! n"

text \<open>The ASCII white space: tab, line feed, vertical tab, form feed, carriage return, space.\<close>

definition is_white_space :: "char \<Rightarrow> bool" where
  "is_white_space c = ((of_char c :: nat) \<in> {9, 10, 11, 12, 13, 32})"

definition digits_value :: "string \<Rightarrow> nat" where
  "digits_value ds = foldl (\<lambda>a c. 10 * a + digit_value c) 0 ds"

text \<open>\<^verbatim>\<open>n.toString()\<close> for an integer: decimal digits, a minus sign when negative.\<close>

fun nat_toString :: "nat \<Rightarrow> string" where
  "nat_toString n =
     (if n < 10 then [digit_char n] else nat_toString (n div 10) @ [digit_char (n mod 10)])"

declare nat_toString.simps [simp del]

definition int_toString :: "int \<Rightarrow> string" where
  "int_toString i =
     (if i < 0 then CHR ''-'' # nat_toString (nat (- i)) else nat_toString (nat i))"

text \<open>
  Strings are held as the bytes of their UTF-8 encoding. The white space that \<^verbatim>\<open>parseInt\<close>
  and \<^verbatim>\<open>parseFloat\<close> skip is the white space and the line terminators of ECMAScript:
  the six ASCII characters, U+00A0, U+1680, U+2000 to U+200A, U+2028, U+2029, U+202F,
  U+205F, U+3000 and U+FEFF.
\<close>

definition white_space_chars :: "string list" where
  "white_space_chars =
     [[CHR 0x09], [CHR 0x0A], [CHR 0x0B], [CHR 0x0C], [CHR 0x0D], [CHR 0x20],
      [CHR 0xC2, CHR 0xA0],
      [CHR 0xE1, CHR 0x9A, CHR 0x80],
      [CHR 0xE2, CHR 0x80, CHR 0x80], [CHR 0xE2, CHR 0x80, CHR 0x81],
      [CHR 0xE2, CHR 0x80, CHR 0x82], [CHR 0xE2, CHR 0x80, CHR 0x83],
      [CHR 0xE2, CHR 0x80, CHR 0x84], [CHR 0xE2, CHR 0x80, CHR 0x85],
      [CHR 0xE2, CHR 0x80, CHR 0x86], [CHR 0xE2, CHR 0x80, CHR 0x87],
      [CHR 0xE2, CHR 0x80, CHR 0x88], [CHR 0xE2, CHR 0x80, CHR 0x89],
      [CHR 0xE2, CHR 0x80, CHR 0x8A],
      [CHR 0xE2, CHR 0x80, CHR 0xA8], [CHR 0xE2, CHR 0x80, CHR 0xA9],
      [CHR 0xE2, CHR 0x80, CHR 0xAF],
      [CHR 0xE2, CHR 0x81, CHR 0x9F],
      [CHR 0xE3, CHR 0x80, CHR 0x80],
      [CHR 0xEF, CHR 0xBB, CHR 0xBF]]"

text \<open>The number of bytes of the white space character at the head of a string, if any.\<close>

definition white_space_length :: "string \<Rightarrow> nat" where
  "white_space_length s =
     (if s = [] then 0
      else if take 1 s \<in> set white_space_chars then 1
      else if take 2 s \<in> set white_space_chars then 2
      else if take 3 s \<in> set white_space_chars then 3
      else 0)"

function skip_white_space :: "string \<Rightarrow> string" where
  "skip_white_space s =
     (if white_space_length s = 0 then s
      else skip_white_space (drop (white_space_length s) s))"
  by pat_completeness auto
termination
  by (relation "measure length") (auto simp: white_space_length_def split: if_splits)

declare skip_white_space.simps [simp del]

text \<open>
  What \<^verbatim>\<open>parseInt\<close> returns: \<^verbatim>\<open>NaN\<close>, an infinity (\<open>True\<close> for the negative one), or a
  finite Number, which is an integer.
\<close>

datatype js_integer = NaN | Infinity bool | Integer int

text \<open>
  \<^verbatim>\<open>parseInt(s, 10)\<close>: leading white space is skipped, a sign is read, then the longest
  run of decimal digits; without a digit the result is \<^verbatim>\<open>NaN\<close>. The value of the digits
  becomes a Number as the runtime rounds it, and the sign is applied to it.
\<close>

definition parseInt :: "'t js_runtime \<Rightarrow> string \<Rightarrow> js_integer" where
  "parseInt rt s =
     (let s1 = skip_white_space s;
          neg = (case s1 of c # _ \<Rightarrow> c = CHR ''-'' | [] \<Rightarrow> False);
          s2 = (case s1 of c # r \<Rightarrow> if c = CHR ''-'' \<or> c = CHR ''+'' then r else s1
                | [] \<Rightarrow> s1);
          ds = takeWhile is_digit s2
      in if ds = [] then NaN
         else (case Number_of_nat rt (digits_value ds) of
                 None \<Rightarrow> Infinity neg
               | Some m \<Rightarrow> Integer (if neg then - int m else int m)))"

text \<open>\<^verbatim>\<open>x.toString()\<close> on a result of \<^verbatim>\<open>parseInt\<close>.\<close>

definition js_integer_toString :: "'t js_runtime \<Rightarrow> js_integer \<Rightarrow> string" where
  "js_integer_toString rt x =
     (case x of
        NaN \<Rightarrow> ''NaN''
      | Infinity neg \<Rightarrow> (if neg then ''-Infinity'' else ''Infinity'')
      | Integer i \<Rightarrow> Number_toString rt (real_of_int i))"

text \<open>\<^verbatim>\<open>x >= 0\<close> on a result of \<^verbatim>\<open>parseInt\<close>; it is false of \<^verbatim>\<open>NaN\<close>.\<close>

definition nonnegative :: "js_integer \<Rightarrow> bool" where
  "nonnegative x = (case x of NaN \<Rightarrow> False | Infinity neg \<Rightarrow> \<not> neg | Integer i \<Rightarrow> 0 \<le> i)"

text \<open>
  \<^verbatim>\<open>parseFloat(s)\<close>: white space, sign, digits, an optional fraction and an optional
  exponent; \<open>None\<close> is \<^verbatim>\<open>NaN\<close>. The literal \<^verbatim>\<open>Infinity\<close>, which has no real value, is
  read as \<open>None\<close>; a number input never holds it.
\<close>

definition parseFloat :: "string \<Rightarrow> real option" where
  "parseFloat s =
     (let s1 = skip_white_space s;
          neg = (case s1 of c # _ \<Rightarrow> c = CHR ''-'' | [] \<Rightarrow> False);
          s2 = (case s1 of c # r \<Rightarrow> if c = CHR ''-'' \<or> c = CHR ''+'' then r else s1
                | [] \<Rightarrow> s1);
          ip = takeWhile is_digit s2;
          r1 = dropWhile is_digit s2;
          fp = (case r1 of c # r \<Rightarrow> if c = CHR ''.'' then takeWhile is_digit r else []
                | [] \<Rightarrow> []);
          r2 = (case r1 of c # r \<Rightarrow> if c = CHR ''.'' then dropWhile is_digit r else r1
                | [] \<Rightarrow> r1);
          r3 = (case r2 of c # r \<Rightarrow> if c = CHR ''e'' \<or> c = CHR ''E'' then r else []
                | [] \<Rightarrow> []);
          eneg = (case r3 of c # _ \<Rightarrow> c = CHR ''-'' | [] \<Rightarrow> False);
          r4 = (case r3 of c # r \<Rightarrow> if c = CHR ''-'' \<or> c = CHR ''+'' then r else r3
                | [] \<Rightarrow> r3);
          ep = takeWhile is_digit r4;
          m = real (digits_value ip) + real (digits_value fp) / 10 ^ length fp;
          v = (if eneg then m / 10 ^ digits_value ep else m * 10 ^ digits_value ep)
      in if ip = [] \<and> fp = [] then None else Some (if neg then - v else v))"

text \<open>\<^verbatim>\<open>xs.join(sep)\<close>\<close>

fun join :: "string \<Rightarrow> string list \<Rightarrow> string" where
  "join sep [] = []"
| "join sep [x] = x"
| "join sep (x # y # ys) = x @ sep @ join sep (y # ys)"

text \<open>\<^verbatim>\<open>s.trim()\<close>\<close>

definition trim :: "string \<Rightarrow> string" where
  "trim s = rev (dropWhile is_white_space (rev (dropWhile is_white_space s)))"

text \<open>\<^verbatim>\<open>s.split('T')[0]\<close>\<close>

definition before_T :: "string \<Rightarrow> string" where
  "before_T s = takeWhile (\<lambda>c. c \<noteq> CHR ''T'') s"

section \<open>constants.ts\<close>

definition DEFAULT_BUDGETS :: "Budget list" where
  "DEFAULT_BUDGETS =
    [\<lparr> Budget.category = ''Grocery'', Budget.limit = 10000 \<rparr>,
     \<lparr> Budget.category = ''Household Help'', Budget.limit = 5000 \<rparr>,
     \<lparr> Budget.category = ''Medical'', Budget.limit = 2000 \<rparr>,
     \<lparr> Budget.category = ''Shopping'', Budget.limit = 5000 \<rparr>,
     \<lparr> Budget.category = ''Transport'', Budget.limit = 3000 \<rparr>,
     \<lparr> Budget.category = ''Education'', Budget.limit = 5000 \<rparr>,
     \<lparr> Budget.category = ''Entertainment'', Budget.limit = 3000 \<rparr>,
     \<lparr> Budget.category = ''Medical Insurance'', Budget.limit = 2000 \<rparr>,
     \<lparr> Budget.category = ''Property Tax'', Budget.limit = 1000 \<rparr>,
     \<lparr> Budget.category = ''Electricity'', Budget.limit = 3000 \<rparr>,
     \<lparr> Budget.category = ''Mobile'', Budget.limit = 1000 \<rparr>,
     \<lparr> Budget.category = ''Home Maintenance'', Budget.limit = 2000 \<rparr>,
     \<lparr> Budget.category = ''Petrol'', Budget.limit = 5000 \<rparr>,
     \<lparr> Budget.category = ''Food & Drinks'', Budget.limit = 5000 \<rparr>]"

section \<open>The store client\<close>

text \<open>
  An asynchronous function either resolves with a value or rejects with the exception
  that left it.
\<close>

datatype js_error = RangeError | TypeError | StoreError string

datatype 'a promise = Resolved 'a | Rejected js_error

text \<open>
  The rows of the tables \<^verbatim>\<open>expenses\<close> and \<^verbatim>\<open>expense_budgets\<close> as the queries select them.
  A key arrives as a number or as a string. Numeric columns arrive as finite numbers, on
  which \<^verbatim>\<open>parseFloat\<close> is the identity.
\<close>

datatype db_id = IdNumber int | IdString string

record ExpenseRow =
  row_id :: db_id
  amount :: real
  category :: string
  description :: string
  created_at :: string

record BudgetRow =
  category :: string
  budget_amount :: real

record AppState =
  expenses :: "Expense list"
  budgets :: "Budget list"

text \<open>The argument of \<^verbatim>\<open>saveExpense\<close>: an expense without \<^verbatim>\<open>id\<close> and \<^verbatim>\<open>date\<close>.\<close>

record NewExpense =
  amount :: real
  category :: string
  description :: string

text \<open>\<^verbatim>\<open>Partial<Expense>\<close>: every field is present or absent (\<^verbatim>\<open>undefined\<close>).\<close>

record ExpenseUpdates =
  ident :: "string option"
  amount :: "real option"
  category :: "string option"
  description :: "string option"
  date :: "string option"

text \<open>The object \<^verbatim>\<open>insertData\<close>; \<^verbatim>\<open>created_at\<close> is set only for an explicit date.\<close>

record InsertData =
  user_id :: string
  amount :: real
  category :: string
  description :: string
  created_at :: "string option"

text \<open>The object \<^verbatim>\<open>dbUpdates\<close>, which starts empty.\<close>

record DbUpdates =
  amount :: "real option"
  category :: "string option"
  description :: "string option"
  created_at :: "string option"

record BudgetData =
  user_id :: string
  category :: string
  budget_amount :: real

text \<open>The value given to \<^verbatim>\<open>.eq('id', ...)\<close>: a number or a string.\<close>

datatype filter_id = FilterNumber js_integer | FilterString string

text \<open>
  The client \<^verbatim>\<open>supabase\<close> is outside the repository. It is modelled by what it answers:
  the signed-in user, and for every query the pair \<^verbatim>\<open>{ data, error }\<close> (\<open>None\<close> is
  \<^verbatim>\<open>null\<close>). A query resolves; it reports a failure in \<^verbatim>\<open>error\<close>.
\<close>

record supabase =
  auth_getUser :: "string option"
  expenses_select :: "string \<Rightarrow> ExpenseRow list option \<times> string option"
  budgets_select :: "string \<Rightarrow> BudgetRow list option"
  expenses_insert :: "InsertData \<Rightarrow> ExpenseRow list option \<times> string option"
  expenses_update ::
    "DbUpdates \<Rightarrow> filter_id \<Rightarrow> string \<Rightarrow> ExpenseRow list option \<times> string option"
  budgets_upsert :: "BudgetData list \<Rightarrow> string option"

text \<open>The queries an operation sent, in order.\<close>

datatype store_call =
    Select_expenses string
  | Select_budgets string
  | Insert_expense InsertData
  | Update_expense DbUpdates filter_id string
  | Upsert_budgets "BudgetData list"
  | Delete_budget string string
  | Delete_expenses string
  | Delete_budgets string

section \<open>apiService\<close>

text \<open>\<^verbatim>\<open>row.id.toString()\<close>\<close>

fun id_toString :: "db_id \<Rightarrow> string" where
  "id_toString (IdNumber n) = int_toString n"
| "id_toString (IdString s) = s"

text \<open>The object literal that turns a selected row into an \<^verbatim>\<open>Expense\<close>.\<close>

definition toExpense :: "ExpenseRow \<Rightarrow> Expense" where
  "toExpense row =
     \<lparr> Expense.ident = id_toString (row_id row),
       Expense.amount = ExpenseRow.amount row,
       Expense.category = ExpenseRow.category row,
       Expense.description = ExpenseRow.description row,
       Expense.date = ExpenseRow.created_at row \<rparr>"

definition defaultState :: AppState where
  "defaultState = \<lparr> expenses = [], budgets = DEFAULT_BUDGETS \<rparr>"

text \<open>Lines 33 to 40 of \<^verbatim>\<open>fetchState\<close>: the overrides merged onto the catalog.\<close>

definition finalBudgets :: "BudgetRow list option \<Rightarrow> Budget list" where
  "finalBudgets dbBudgets =
     (case dbBudgets of
        None \<Rightarrow> DEFAULT_BUDGETS
      | Some rows \<Rightarrow>
          if length rows > 0
          then map (\<lambda>def.
                 case find (\<lambda>b. BudgetRow.category b = Budget.category def) rows of
                   Some found \<Rightarrow> \<lparr> Budget.category = BudgetRow.category found,
                                    Budget.limit = BudgetRow.budget_amount found \<rparr>
                 | None \<Rightarrow> def) DEFAULT_BUDGETS
          else DEFAULT_BUDGETS)"

text \<open>
  \<^verbatim>\<open>fetchState\<close>. The \<^verbatim>\<open>throw expError\<close> is caught by the \<^verbatim>\<open>catch\<close> of the same
  function, which returns the default state.
\<close>

definition fetchState :: "supabase \<Rightarrow> AppState promise \<times> store_call list" where
  "fetchState sb =
     (case auth_getUser sb of
        None \<Rightarrow> (Resolved defaultState, [])
      | Some uid \<Rightarrow>
          (case expenses_select sb uid of
             (dbExpenses, Some expError) \<Rightarrow> (Resolved defaultState, [Select_expenses uid])
           | (dbExpenses, None) \<Rightarrow>
               (Resolved \<lparr> expenses = map toExpense (case dbExpenses of None \<Rightarrow> []
                                                        | Some rows \<Rightarrow> rows),
                           budgets = finalBudgets (budgets_select sb uid) \<rparr>,
                [Select_expenses uid, Select_budgets uid])))"

text \<open>
  Lines 72 to 74 of \<^verbatim>\<open>saveExpense\<close>: \<^verbatim>\<open>new Date(specificDate).toISOString()\<close> throws a
  \<^verbatim>\<open>RangeError\<close> on an invalid date. An absent or empty \<^verbatim>\<open>specificDate\<close> is falsy.
\<close>

definition insert_created_at ::
  "'t js_runtime \<Rightarrow> string option \<Rightarrow> js_error + string option" where
  "insert_created_at rt specificDate =
     (case specificDate of
        None \<Rightarrow> Inr None
      | Some s \<Rightarrow>
          if s = [] then Inr None
          else (case Date_parse rt s of
                  None \<Rightarrow> Inl RangeError
                | Some t \<Rightarrow> Inr (Some (toISOString rt t))))"

definition saveExpense ::
  "'t js_runtime \<Rightarrow> supabase \<Rightarrow> NewExpense \<Rightarrow> string option
     \<Rightarrow> Expense option promise \<times> store_call list" where
  "saveExpense rt sb expense specificDate =
     (case auth_getUser sb of
        None \<Rightarrow> (Resolved None, [])
      | Some uid \<Rightarrow>
          (case insert_created_at rt specificDate of
             Inl exn \<Rightarrow> (Rejected exn, [])
           | Inr created \<Rightarrow>
               (let insertData = \<lparr> InsertData.user_id = uid,
                                   InsertData.amount = NewExpense.amount expense,
                                   InsertData.category = NewExpense.category expense,
                                   InsertData.description = NewExpense.description expense,
                                   InsertData.created_at = created \<rparr>
                in (case expenses_insert sb insertData of
                      (data, Some error) \<Rightarrow> Resolved None
                    | (None, None) \<Rightarrow> Resolved None
                    | (Some [], None) \<Rightarrow> Resolved None
                    | (Some (saved # rest), None) \<Rightarrow> Resolved (Some (toExpense saved)),
                    [Insert_expense insertData]))))"

text \<open>Lines 101 to 111 of \<^verbatim>\<open>updateExpense\<close>: the payload.\<close>

definition dbUpdates_of :: "'t js_runtime \<Rightarrow> ExpenseUpdates \<Rightarrow> DbUpdates" where
  "dbUpdates_of rt updates =
     \<lparr> DbUpdates.amount = ExpenseUpdates.amount updates,
       DbUpdates.category = ExpenseUpdates.category updates,
       DbUpdates.description = ExpenseUpdates.description updates,
       DbUpdates.created_at =
         (case ExpenseUpdates.date updates of
            None \<Rightarrow> None
          | Some d \<Rightarrow>
              if d = [] then None
              else (case Date_parse rt d of
                      None \<Rightarrow> None
                    | Some dateObj \<Rightarrow> Some (toISOString rt dateObj))) \<rparr>"

text \<open>Lines 113 and 114: the representation of the identifier \<^verbatim>\<open>id\<close> (here \<open>eid\<close>) for the first
  attempt.\<close>

definition filterId :: "'t js_runtime \<Rightarrow> string \<Rightarrow> filter_id" where
  "filterId rt eid =
     (let numericId = parseInt rt eid
      in if numericId = NaN \<or> eid \<noteq> js_integer_toString rt numericId
         then FilterString eid
         else FilterNumber numericId)"

definition updateExpense ::
  "'t js_runtime \<Rightarrow> supabase \<Rightarrow> string \<Rightarrow> ExpenseUpdates
     \<Rightarrow> Expense option promise \<times> store_call list" where
  "updateExpense rt sb eid updates =
     (case auth_getUser sb of
        None \<Rightarrow> (Resolved None, [])
      | Some uid \<Rightarrow>
          (let dbUpdates = dbUpdates_of rt updates;
               first = Update_expense dbUpdates (filterId rt eid) uid
           in (case expenses_update sb dbUpdates (filterId rt eid) uid of
                 (data, Some error) \<Rightarrow> (Resolved None, [first])
               | (Some (updatedRow # rest), None) \<Rightarrow>
                   (Resolved (Some (toExpense updatedRow)), [first])
               | (data, None) \<Rightarrow>
                   (case filterId rt eid of
                      FilterString s \<Rightarrow> (Resolved None, [first])
                    | FilterNumber n \<Rightarrow>
                        (case fst (expenses_update sb dbUpdates (FilterString eid) uid) of
                           Some (row # rest) \<Rightarrow> Resolved (Some (toExpense row))
                         | retryData \<Rightarrow> Resolved None,
                         [first, Update_expense dbUpdates (FilterString eid) uid])))))"

text \<open>\<^verbatim>\<open>saveBudgets\<close>: the error of the upsert is thrown to the caller.\<close>

definition saveBudgets :: "supabase \<Rightarrow> Budget list \<Rightarrow> unit promise \<times> store_call list" where
  "saveBudgets sb budgetList =
     (case auth_getUser sb of
        None \<Rightarrow> (Resolved (), [])
      | Some uid \<Rightarrow>
          (let budgetData = map (\<lambda>b. \<lparr> BudgetData.user_id = uid,
                                        BudgetData.category = Budget.category b,
                                        BudgetData.budget_amount = Budget.limit b \<rparr>) budgetList
           in (case budgets_upsert sb budgetData of
                 Some error \<Rightarrow> Rejected (StoreError error)
               | None \<Rightarrow> Resolved (),
               [Upsert_budgets budgetData])))"

definition deleteBudget :: "supabase \<Rightarrow> string \<Rightarrow> unit promise \<times> store_call list" where
  "deleteBudget sb cat =
     (case auth_getUser sb of
        None \<Rightarrow> (Resolved (), [])
      | Some uid \<Rightarrow> (Resolved (), [Delete_budget uid cat]))"

definition clearUserData :: "supabase \<Rightarrow> unit promise \<times> store_call list" where
  "clearUserData sb =
     (case auth_getUser sb of
        None \<Rightarrow> (Resolved (), [])
      | Some uid \<Rightarrow> (Resolved (), [Delete_expenses uid, Delete_budgets uid]))"

section \<open>Settings\<close>

text \<open>
  \<^verbatim>\<open>handleInputChange\<close>. The handler calls the property \<^verbatim>\<open>onUpdateBudget\<close>, whose code is
  the caller's; the result is the call it makes, with the Number it passes as the limit,
  and \<open>None\<close> when it makes none. The reset of \<^verbatim>\<open>saveStatus\<close> is display state and is
  left out.
\<close>

definition handleInputChange ::
  "'t js_runtime \<Rightarrow> string \<Rightarrow> string \<Rightarrow> (string \<times> js_integer) option" where
  "handleInputChange rt cat val =
     (let numValue = parseInt rt val
      in if numValue \<noteq> NaN then Some (cat, numValue)
         else if val = [] then Some (cat, Integer 0)
         else None)"

text \<open>\<^verbatim>\<open>`"${s.replace(/"/g, '""')}"`\<close>\<close>

definition csv_quote :: "string \<Rightarrow> string" where
  "csv_quote s =
     [CHR 0x22] @ concat (map (\<lambda>c. if c = CHR 0x22 then [CHR 0x22, CHR 0x22] else [c]) s)
       @ [CHR 0x22]"

text \<open>\<^verbatim>\<open>new Date(e.date).toLocaleDateString()\<close>; an invalid date prints as \<^verbatim>\<open>Invalid Date\<close>.\<close>

definition localeDate :: "'t js_runtime \<Rightarrow> string \<Rightarrow> string" where
  "localeDate rt s =
     (case Date_parse rt s of
        None \<Rightarrow> ''Invalid Date''
      | Some t \<Rightarrow> toLocaleDateString rt t)"

definition csv_headers :: "string list" where
  "csv_headers = [''User'', ''Date'', ''Category'', ''Amount (INR)'', ''Description'']"

definition csv_row :: "'t js_runtime \<Rightarrow> string \<Rightarrow> Expense \<Rightarrow> string list" where
  "csv_row rt userName e =
     [csv_quote userName,
      localeDate rt (Expense.date e),
      Expense.category e,
      Number_toString rt (Expense.amount e),
      csv_quote (Expense.description e)]"

text \<open>
  \<^verbatim>\<open>handleExportCSV\<close>, with the current time \<open>now\<close>: \<open>None\<close> when the list is empty (an
  alert, no file), else the name and the content of the file offered for download.
\<close>

definition handleExportCSV ::
  "'t js_runtime \<Rightarrow> 't \<Rightarrow> string \<Rightarrow> Expense list \<Rightarrow> (string \<times> string) option" where
  "handleExportCSV rt now userName exps =
     (if length exps = 0 then None
      else
        let rows = map (csv_row rt userName) exps;
            csvContent = join [CHR 0x0A] (map (join '','') (csv_headers # rows))
        in Some (''smartspend-expenses-'' @ before_T (toISOString rt now) @ ''.csv'',
                 csvContent))"

section \<open>Dashboard: the edit form\<close>

text \<open>
  The \<^verbatim>\<open>onChange\<close> of the amount input:
  \<^verbatim>\<open>setEditingExpense({...editingExpense, amount: parseFloat(e.target.value) || 0})\<close>.
  \<^verbatim>\<open>NaN\<close> and \<open>0\<close> are falsy.
\<close>

definition amount_onChange :: "Expense \<Rightarrow> string \<Rightarrow> Expense" where
  "amount_onChange editingExpense val =
     editingExpense \<lparr> Expense.amount :=
        (case parseFloat val of None \<Rightarrow> 0 | Some x \<Rightarrow> if x = 0 then 0 else x) \<rparr>"

text \<open>The updates that \<^verbatim>\<open>handleUpdate\<close> passes to \<^verbatim>\<open>onUpdateExpense\<close>.\<close>

definition handleUpdate_updates :: "Expense \<Rightarrow> ExpenseUpdates" where
  "handleUpdate_updates editingExpense =
     \<lparr> ExpenseUpdates.ident = None,
       ExpenseUpdates.amount = Some (Expense.amount editingExpense),
       ExpenseUpdates.category = Some (Expense.category editingExpense),
       ExpenseUpdates.description = Some (Expense.description editingExpense),
       ExpenseUpdates.date = Some (Expense.date editingExpense) \<rparr>"

section \<open>parseExpenseMessage\<close>

text \<open>
  The model client is outside the repository. It is modelled by what it answers: whether
  its constructor throws, what \<^verbatim>\<open>generateContent\<close> does with the message and the system
  instruction (it rejects, or resolves with a response whose \<^verbatim>\<open>text\<close> may be
  \<^verbatim>\<open>undefined\<close>), and \<^verbatim>\<open>JSON.parse\<close>, with \<open>None\<close> for a \<^verbatim>\<open>SyntaxError\<close>.
\<close>

datatype gen_error = ConstructorError | ApiError string | TextUndefined | SyntaxError

record 'j genai =
  construct :: "gen_error option"
  generateContent :: "string \<Rightarrow> string \<Rightarrow> string + string option"
  JSON_parse :: "string \<Rightarrow> 'j option"

definition categories :: "string list" where
  "categories =
     [''Grocery'', ''Household Help'', ''Medical'', ''Shopping'', ''Transport'',
      ''Education'', ''Entertainment'', ''Medical Insurance'', ''Property Tax'',
      ''Electricity'', ''Mobile'', ''Home Maintenance'', ''Petrol'', ''Food & Drinks'']"

definition systemInstruction :: "string \<Rightarrow> string" where
  "systemInstruction currentDate =
     ''Extract expense JSON. Today: '' @ currentDate @ ''. Categories: ''
       @ join '', '' categories
       @ ''. Return format: {'' @ [CHR 0x22] @ ''amount'' @ [CHR 0x22] @ '':number,''
       @ [CHR 0x22] @ ''category'' @ [CHR 0x22] @ '':string,''
       @ [CHR 0x22] @ ''description'' @ [CHR 0x22] @ '':string,''
       @ [CHR 0x22] @ ''date'' @ [CHR 0x22] @ '':'' @ [CHR 0x22] @ ''YYYY-MM-DD''
       @ [CHR 0x22] @ ''}''"

text \<open>The body of the \<^verbatim>\<open>try\<close> block: the exception that leaves it, or the parsed value.\<close>

definition parseExpenseMessage_try ::
  "'t js_runtime \<Rightarrow> 'j genai \<Rightarrow> 't \<Rightarrow> string \<Rightarrow> gen_error + 'j" where
  "parseExpenseMessage_try rt ai now message =
     (case construct ai of
        Some exn \<Rightarrow> Inl exn
      | None \<Rightarrow>
          (let currentDate = before_T (toISOString rt now)
           in case generateContent ai message (systemInstruction currentDate) of
                Inl err \<Rightarrow> Inl (ApiError err)
              | Inr None \<Rightarrow> Inl TextUndefined
              | Inr (Some text) \<Rightarrow>
                  (case JSON_parse ai (trim text) of
                     None \<Rightarrow> Inl SyntaxError
                   | Some v \<Rightarrow> Inr v)))"

text \<open>The whole function: the \<^verbatim>\<open>catch\<close> logs the error and returns \<^verbatim>\<open>null\<close>.\<close>

definition parseExpenseMessage ::
  "'t js_runtime \<Rightarrow> 'j genai \<Rightarrow> 't \<Rightarrow> string \<Rightarrow> 'j option promise" where
  "parseExpenseMessage rt ai now message =
     (case parseExpenseMessage_try rt ai now message of
        Inl exn \<Rightarrow> Resolved None
      | Inr v \<Rightarrow> Resolved (Some v))"

section \<open>A sample runtime and sample stores\<close>

text \<open>
  A runtime for the concrete instances below: the time zone UTC, the locale \<^verbatim>\<open>en-US\<close>, and
  dates given in the form \<^verbatim>\<open>YYYY-MM-DD\<close>, read as the triple of year, month and day. Every
  other string is an invalid date in it. An integer becomes the nearest double, a tie going
  to the even one. Numbers print as the decimal digits of their integer part, which is what
  \<^verbatim>\<open>toString\<close> gives for the integers up to \<open>2^53\<close>; the instances print no other number.
\<close>

fun bit_length :: "nat \<Rightarrow> nat" where
  "bit_length n = (if n = 0 then 0 else Suc (bit_length (n div 2)))"

declare bit_length.simps [simp del]

definition nearest_double :: "nat \<Rightarrow> nat option" where
  "nearest_double n =
     (if n \<le> 2 ^ 53 then Some n
      else
        let e = bit_length n - 53;
            q = n div 2 ^ e;
            r = n mod 2 ^ e;
            q' = (if 2 ^ e < 2 * r \<or> (2 * r = 2 ^ e \<and> odd q) then q + 1 else q)
        in if 2 ^ 1024 \<le> q' * 2 ^ e then None else Some (q' * 2 ^ e))"

definition days_in_month :: "nat \<Rightarrow> nat \<Rightarrow> nat" where
  "days_in_month y m =
     (if m = 2 then (if y mod 4 = 0 \<and> (y mod 100 \<noteq> 0 \<or> y mod 400 = 0) then 29 else 28)
      else if m \<in> {4, 6, 9, 11} then 30 else 31)"

definition sample_Date_parse :: "string \<Rightarrow> (nat \<times> nat \<times> nat) option" where
  "sample_Date_parse s =
     (let y = digits_value (take 4 s);
          m = digits_value (take 2 (drop 5 s));
          d = digits_value (drop 8 s)
      in if length s = 10 \<and> list_all is_digit (take 4 s) \<and> s ! 4 = CHR ''-''
            \<and> list_all is_digit (take 2 (drop 5 s)) \<and> s ! 7 = CHR ''-''
            \<and> list_all is_digit (drop 8 s)
            \<and> 1 \<le> m \<and> m \<le> 12 \<and> 1 \<le> d \<and> d \<le> days_in_month y m
         then Some (y, m, d) else None)"

definition pad :: "nat \<Rightarrow> string \<Rightarrow> string" where
  "pad n s = replicate (n - length s) CHR ''0'' @ s"

definition sample_runtime :: "(nat \<times> nat \<times> nat) js_runtime" where
  "sample_runtime =
     \<lparr> Date_parse = sample_Date_parse,
       getMonth = (\<lambda>(y, m, d). m - 1),
       getFullYear = (\<lambda>(y, m, d). int y),
       toISOString = (\<lambda>(y, m, d). pad 4 (nat_toString y) @ ''-'' @ pad 2 (nat_toString m)
                         @ ''-'' @ pad 2 (nat_toString d) @ ''T00:00:00.000Z''),
       toLocaleDateString = (\<lambda>(y, m, d). nat_toString m @ ''/'' @ nat_toString d
                         @ ''/'' @ nat_toString y),
       Number_of_nat = nearest_double,
       Number_toString = (\<lambda>x. int_toString \<lfloor>x\<rfloor>) \<rparr>"

text \<open>The same runtime with the locale \<^verbatim>\<open>en-GB\<close>, which writes the day first.\<close>

definition en_GB_runtime :: "(nat \<times> nat \<times> nat) js_runtime" where
  "en_GB_runtime =
     sample_runtime \<lparr> toLocaleDateString :=
       (\<lambda>(y, m, d). pad 2 (nat_toString d) @ ''/'' @ pad 2 (nat_toString m)
                    @ ''/'' @ nat_toString y) \<rparr>"

text \<open>A store with nobody signed in, and one with user \<^verbatim>\<open>u1\<close> and no rows at all.\<close>

definition signed_out :: supabase where
  "signed_out =
     \<lparr> auth_getUser = None,
       expenses_select = (\<lambda>uid. (Some [], None)),
       budgets_select = (\<lambda>uid. Some []),
       expenses_insert = (\<lambda>d. (Some [], None)),
       expenses_update = (\<lambda>u f uid. (Some [], None)),
       budgets_upsert = (\<lambda>bs. None) \<rparr>"

definition empty_store :: supabase where
  "empty_store = signed_out \<lparr> auth_getUser := Some ''u1'' \<rparr>"

text \<open>
  A store of user \<^verbatim>\<open>u1\<close> with one expense under the numeric key 7 and one budget override.
  An update matches the row by the number 7 only; an insert returns the new row with key 8.
\<close>

definition row7 :: ExpenseRow where
  "row7 = \<lparr> row_id = IdNumber 7, ExpenseRow.amount = 250,
            ExpenseRow.category = ''Food & Drinks'', ExpenseRow.description = ''Lunch'',
            ExpenseRow.created_at = ''2024-01-05'' \<rparr>"

definition apply_updates :: "DbUpdates \<Rightarrow> ExpenseRow \<Rightarrow> ExpenseRow" where
  "apply_updates u r =
     r \<lparr> ExpenseRow.amount := (case DbUpdates.amount u of None \<Rightarrow> ExpenseRow.amount r
                                | Some a \<Rightarrow> a),
         ExpenseRow.category := (case DbUpdates.category u of None \<Rightarrow> ExpenseRow.category r
                                | Some c \<Rightarrow> c),
         ExpenseRow.description := (case DbUpdates.description u of
                                  None \<Rightarrow> ExpenseRow.description r | Some c \<Rightarrow> c),
         ExpenseRow.created_at := (case DbUpdates.created_at u of
                                  None \<Rightarrow> ExpenseRow.created_at r | Some c \<Rightarrow> c) \<rparr>"

definition sample_store :: supabase where
  "sample_store =
     \<lparr> auth_getUser = Some ''u1'',
       expenses_select = (\<lambda>uid. (Some [row7], None)),
       budgets_select =
         (\<lambda>uid. Some [\<lparr> BudgetRow.category = ''Medical'', BudgetRow.budget_amount = 2500 \<rparr>]),
       expenses_insert =
         (\<lambda>d. (Some [\<lparr> row_id = IdNumber 8, ExpenseRow.amount = InsertData.amount d,
                        ExpenseRow.category = InsertData.category d,
                        ExpenseRow.description = InsertData.description d,
                        ExpenseRow.created_at =
                          (case InsertData.created_at d of None \<Rightarrow> ''2024-02-01T09:00:00.000Z''
                           | Some c \<Rightarrow> c) \<rparr>], None)),
       expenses_update =
         (\<lambda>u f uid. if f = FilterNumber (Integer 7) \<and> uid = ''u1''
                     then (Some [apply_updates u row7], None) else (Some [], None)),
       budgets_upsert = (\<lambda>bs. None) \<rparr>"

text \<open>The same store with keys kept as strings: the row answers to the string \<^verbatim>\<open>7\<close> only.\<close>

definition string_key_store :: supabase where
  "string_key_store =
     sample_store \<lparr> expenses_update :=
       (\<lambda>u f uid. if f = FilterString ''7'' \<and> uid = ''u1''
                   then (Some [apply_updates u (row7 \<lparr> row_id := IdString ''7'' \<rparr>)], None)
                   else (Some [], None)) \<rparr>"

text \<open>
  Budgets and expenses for the concrete instances: two expenses of January 2024 in
  categories without a budget (one differs from \<^verbatim>\<open>Grocery\<close> in case only), and one expense
  of another month.
\<close>

definition sample_budgets :: "Budget list" where
  "sample_budgets = [\<lparr> Budget.category = ''Grocery'', Budget.limit = 10000 \<rparr>,
                     \<lparr> Budget.category = ''Transport'', Budget.limit = 3000 \<rparr>,
                     \<lparr> Budget.category = ''Medical'', Budget.limit = 0 \<rparr>,
                     \<lparr> Budget.category = ''Petrol'', Budget.limit = 5000 \<rparr>]"

definition mk_expense :: "string \<Rightarrow> real \<Rightarrow> string \<Rightarrow> string \<Rightarrow> Expense" where
  "mk_expense i a c d = \<lparr> Expense.ident = i, Expense.amount = a, Expense.category = c,
       Expense.description = ''item'', Expense.date = d \<rparr>"

definition sample_expenses :: "Expense list" where
  "sample_expenses =
     [mk_expense ''1'' 4000 ''Grocery'' ''2024-01-03'',
      mk_expense ''2'' 3000 ''Grocery'' ''2024-01-09'',
      mk_expense ''3'' 5000 ''Transport'' ''2024-01-10'',
      mk_expense ''4'' 800 ''Gifts'' ''2024-01-11'',
      mk_expense ''5'' 50 ''grocery'' ''2024-01-12'',
      mk_expense ''6'' 900 ''Grocery'' ''2023-12-30'']"

text \<open>Arguments for the concrete instances.\<close>

definition lunch :: NewExpense where
  "lunch = \<lparr> NewExpense.amount = 250, NewExpense.category = ''Food & Drinks'',
             NewExpense.description = ''Lunch'' \<rparr>"

definition amount_and_bad_date :: ExpenseUpdates where
  "amount_and_bad_date =
     \<lparr> ExpenseUpdates.ident = None, ExpenseUpdates.amount = Some 300,
       ExpenseUpdates.category = None, ExpenseUpdates.description = None,
       ExpenseUpdates.date = Some ''not-a-date'' \<rparr>"

definition category_and_good_date :: ExpenseUpdates where
  "category_and_good_date =
     \<lparr> ExpenseUpdates.ident = None, ExpenseUpdates.amount = None,
       ExpenseUpdates.category = Some ''Transport'', ExpenseUpdates.description = None,
       ExpenseUpdates.date = Some ''2024-02-10'' \<rparr>"

text \<open>A store of user \<^verbatim>\<open>u1\<close> whose upsert fails.\<close>

definition failing_upsert_store :: supabase where
  "failing_upsert_store = empty_store \<lparr> budgets_upsert := (\<lambda>bs. Some ''timeout'') \<rparr>"

text \<open>
  The expense of the export scenario, and one whose category is outside the catalog and
  holds a comma.
\<close>

definition lunch_special :: Expense where
  "lunch_special =
     \<lparr> Expense.ident = ''1'', Expense.amount = 250, Expense.category = ''Food & Drinks'',
       Expense.description = ''Lunch '' @ [CHR 0x22] @ ''special'' @ [CHR 0x22],
       Expense.date = ''2024-01-05'' \<rparr>"

definition comma_category :: Expense where
  "comma_category =
     \<lparr> Expense.ident = ''2'', Expense.amount = 250, Expense.category = ''Food, Drinks'',
       Expense.description = ''Lunch'', Expense.date = ''2024-01-05'' \<rparr>"

text \<open>
  Reading a quoted CSV field back, as the format defines it: the field stands between two
  quotes, a doubled quote inside stands for one quote, and a single quote inside is
  malformed. This is the reader's side of the format, not code of the repository.
\<close>

fun csv_unescape :: "string \<Rightarrow> string option" where
  "csv_unescape [] = Some []"
| "csv_unescape [c] = (if c = CHR 0x22 then None else Some [c])"
| "csv_unescape (c # d # r) =
     (if c = CHR 0x22
      then (if d = CHR 0x22 then map_option ((#) c) (csv_unescape r) else None)
      else map_option ((#) c) (csv_unescape (d # r)))"

definition csv_unquote :: "string \<Rightarrow> string option" where
  "csv_unquote s =
     (if 2 \<le> length s \<and> hd s = CHR 0x22 \<and> last s = CHR 0x22
      then csv_unescape (butlast (tl s)) else None)"

text \<open>
  A model client for the concrete instances: it answers every message with one JSON text
  in white space, and its \<^verbatim>\<open>JSON.parse\<close> accepts the texts that start with a brace.
\<close>

definition sample_genai :: "string genai" where
  "sample_genai =
     \<lparr> construct = None,
       generateContent = (\<lambda>message instruction. Inr (Some '' {} '')),
       JSON_parse = (\<lambda>s. case s of c # r \<Rightarrow> if c = CHR ''{'' then Some s else None
                          | [] \<Rightarrow> None) \<rparr>"

section \<open>Sorting and summing: auxiliary facts\<close>

lemma foldl_add_sum_list: "foldl (\<lambda>s e. s + f e) a xs = a + sum_list (map f xs)"
  by (induction xs arbitrary: a) (simp_all add: add.assoc)

lemma length_insert_by: "length (insert_by cmp x ys) = Suc (length ys)"
  by (induction ys) simp_all

lemma length_js_sort: "length (js_sort cmp xs) = length xs"
  by (induction xs) (simp_all add: length_insert_by)

lemma mset_insert_by: "mset (insert_by cmp x ys) = add_mset x (mset ys)"
  by (induction ys) simp_all

lemma mset_js_sort: "mset (js_sort cmp xs) = mset xs"
  by (induction xs) (simp_all add: mset_insert_by)

lemma set_insert_by: "set (insert_by cmp x ys) = insert x (set ys)"
  by (induction ys) auto

lemma set_js_sort: "set (js_sort cmp xs) = set xs"
  by (induction xs) (simp_all add: set_insert_by)

text \<open>With the comparator \<^verbatim>\<open>(a, b) => b.f - a.f\<close> the result is in descending order of \<open>f\<close>.\<close>

lemma sorted_insert_by:
  "sorted_wrt (\<lambda>a b. f b \<le> f a) ys \<Longrightarrow>
   sorted_wrt (\<lambda>a b. f b \<le> (f a :: real)) (insert_by (\<lambda>a b. f b - f a) x ys)"
  by (induction ys) (auto simp: set_insert_by)

lemma sorted_js_sort:
  "sorted_wrt (\<lambda>a b. f b \<le> (f a :: real)) (js_sort (\<lambda>a b. f b - f a) xs)"
  by (induction xs) (simp_all add: sorted_insert_by)

text \<open>Stability: the elements of one key keep the order they had in the input.\<close>

lemma filter_insert_by:
  "filter (\<lambda>y. f y = k) (insert_by (\<lambda>a b. f b - f a) x ys) =
     (if f x = (k::real) then x # filter (\<lambda>y. f y = k) ys else filter (\<lambda>y. f y = k) ys)"
  by (induction ys) auto

lemma stable_js_sort:
  "filter (\<lambda>y. f y = (k::real)) (js_sort (\<lambda>a b. f b - f a) xs) = filter (\<lambda>y. f y = k) xs"
  by (induction xs) (simp_all add: filter_insert_by)

section \<open>The category breakdown\<close>

lemma breakdownEntry_fields:
  "breakdownEntry F b =
     \<lparr> BreakdownEntry.category = Budget.category b,
       BreakdownEntry.limit = Budget.limit b,
       spent = sum_list (map Expense.amount
                 (filter (\<lambda>e. Expense.category e = Budget.category b) F)),
       remaining = Budget.limit b
          - sum_list (map Expense.amount
              (filter (\<lambda>e. Expense.category e = Budget.category b) F)),
       percentage = (if Budget.limit b > 0
          then sum_list (map Expense.amount
                 (filter (\<lambda>e. Expense.category e = Budget.category b) F))
                 / Budget.limit b * 100
          else 0) \<rparr>"
  by (simp add: breakdownEntry_def Let_def foldl_add_sum_list)

text \<open>
  C1. For every budget list \<open>B\<close> and month-filtered expense list \<open>F\<close>, the breakdown has one
  entry per budget: as a multiset it is the list of the entries computed budget by budget,
  where \<open>spent\<close> is the sum of the amounts of the expenses of \<open>F\<close> whose category is equal
  to the budget's (equality of strings, so case matters), \<open>remaining\<close> is the limit minus
  \<open>spent\<close>, and \<open>percentage\<close> is \<open>spent / limit * 100\<close> for a positive limit and \<open>0\<close>
  otherwise. The result is in descending order of \<open>spent\<close>, and the entries of any one
  value of \<open>spent\<close> stand in the order their budgets had in \<open>B\<close>.
\<close>

theorem categoryBreakdown_correct:
  "(let S = (\<lambda>b. sum_list (map Expense.amount
                (filter (\<lambda>e. Expense.category e = Budget.category b) F)));
        entries = map (\<lambda>b. \<lparr> BreakdownEntry.category = Budget.category b,
                             BreakdownEntry.limit = Budget.limit b,
                             spent = S b,
                             remaining = Budget.limit b - S b,
                             percentage = (if Budget.limit b > 0
                                           then S b / Budget.limit b * 100 else 0) \<rparr>) B
    in length (categoryBreakdown B F) = length B
     \<and> mset (categoryBreakdown B F) = mset entries
     \<and> sorted_wrt (\<lambda>x y. spent y \<le> spent x) (categoryBreakdown B F)
     \<and> (\<forall>k. filter (\<lambda>x. spent x = k) (categoryBreakdown B F)
            = filter (\<lambda>x. spent x = k) entries))"
proof -
  have m: "map (\<lambda>b. \<lparr> BreakdownEntry.category = Budget.category b,
                      BreakdownEntry.limit = Budget.limit b,
                      spent = sum_list (map Expense.amount
                                (filter (\<lambda>e. Expense.category e = Budget.category b) F)),
                      remaining = Budget.limit b - sum_list (map Expense.amount
                                (filter (\<lambda>e. Expense.category e = Budget.category b) F)),
                      percentage = (if Budget.limit b > 0
                         then sum_list (map Expense.amount
                                (filter (\<lambda>e. Expense.category e = Budget.category b) F))
                              / Budget.limit b * 100 else 0) \<rparr>) B
           = map (breakdownEntry F) B"
    by (simp add: breakdownEntry_fields)
  show ?thesis
    unfolding Let_def categoryBreakdown_def m
    by (simp add: length_js_sort mset_js_sort sorted_js_sort stable_js_sort)
qed

lemma sample_filtered:
  "filteredExpenses sample_runtime 0 2024 sample_expenses = take 5 sample_expenses"
  by (simp add: filteredExpenses_def sample_expenses_def mk_expense_def sample_runtime_def
      sample_Date_parse_def digits_value_def digit_value_def is_digit_def days_in_month_def)

lemma sample_breakdown:
  "categoryBreakdown sample_budgets (take 5 sample_expenses)
    = [\<lparr> BreakdownEntry.category = ''Grocery'', BreakdownEntry.limit = 10000,
         spent = 7000, remaining = 3000, percentage = 70 \<rparr>,
       \<lparr> BreakdownEntry.category = ''Transport'', BreakdownEntry.limit = 3000,
         spent = 5000, remaining = -2000, percentage = 500 / 3 \<rparr>,
       \<lparr> BreakdownEntry.category = ''Medical'', BreakdownEntry.limit = 0,
         spent = 0, remaining = 0, percentage = 0 \<rparr>,
       \<lparr> BreakdownEntry.category = ''Petrol'', BreakdownEntry.limit = 5000,
         spent = 0, remaining = 5000, percentage = 0 \<rparr>]"
  by (simp add: categoryBreakdown_def breakdownEntry_def sample_budgets_def
      sample_expenses_def mk_expense_def)

theorem categoryBreakdown_correct_witness:
  "length (categoryBreakdown sample_budgets
         (filteredExpenses sample_runtime 0 2024 sample_expenses)) = length sample_budgets
   \<and> map (\<lambda>x. (BreakdownEntry.category x, spent x, remaining x, percentage x))
      (categoryBreakdown sample_budgets (filteredExpenses sample_runtime 0 2024 sample_expenses))
    = [(''Grocery'', 7000, 3000, 70), (''Transport'', 5000, -2000, 500 / 3),
        (''Medical'', 0, 0, 0), (''Petrol'', 0, 5000, 0)]"
proof -
  have "length (categoryBreakdown sample_budgets
         (filteredExpenses sample_runtime 0 2024 sample_expenses)) = length sample_budgets"
    using categoryBreakdown_correct [where B = sample_budgets
      and F = "filteredExpenses sample_runtime 0 2024 sample_expenses"]
    unfolding Let_def by (rule conjunct1)
  then show ?thesis by (simp add: sample_filtered sample_breakdown)
qed

section \<open>Expenses in a category without a budget\<close>

lemma breakdown_ignores_orphan:
  assumes "Expense.category e \<notin> Budget.category ` set B"
  shows "map (breakdownEntry (F1 @ e # F2)) B = map (breakdownEntry (F1 @ F2)) B"
  using assms by (auto simp: breakdownEntry_def)

text \<open>
  C7. Let \<open>e\<close> be an expense of the current month whose category is the category of no
  budget. Then \<open>e\<close> adds its amount to \<open>totalSpent\<close>, and the breakdown is the same as
  without \<open>e\<close>. Conversely the \<open>spent\<close> of every breakdown entry is the sum of the amounts
  of the filtered expenses of exactly the entry's category.
\<close>

theorem orphan_category_asymmetry:
  assumes "Expense.category e \<notin> Budget.category ` set B"
    and "Date_parse rt (Expense.date e) = Some d"
    and "getMonth rt d = m" and "getFullYear rt d = y"
  shows "totalSpent (filteredExpenses rt m y (E1 @ e # E2))
           = totalSpent (filteredExpenses rt m y (E1 @ E2)) + Expense.amount e
       \<and> categoryBreakdown B (filteredExpenses rt m y (E1 @ e # E2))
           = categoryBreakdown B (filteredExpenses rt m y (E1 @ E2))
       \<and> (\<forall>x \<in> set (categoryBreakdown B (filteredExpenses rt m y (E1 @ e # E2))).
            spent x = sum_list (map Expense.amount
              (filter (\<lambda>e'. Expense.category e' = BreakdownEntry.category x)
                 (filteredExpenses rt m y (E1 @ e # E2)))))"
proof -
  have f: "filteredExpenses rt m y (E1 @ e # E2)
      = filteredExpenses rt m y E1 @ e # filteredExpenses rt m y E2"
    using assms(2-4) by (simp add: filteredExpenses_def)
  have g: "filteredExpenses rt m y (E1 @ E2)
      = filteredExpenses rt m y E1 @ filteredExpenses rt m y E2"
    by (simp add: filteredExpenses_def)
  have t: "totalSpent (filteredExpenses rt m y (E1 @ e # E2))
           = totalSpent (filteredExpenses rt m y (E1 @ E2)) + Expense.amount e"
    by (simp add: f g totalSpent_def foldl_add_sum_list)
  have b: "categoryBreakdown B (filteredExpenses rt m y (E1 @ e # E2))
           = categoryBreakdown B (filteredExpenses rt m y (E1 @ E2))"
    by (simp add: f g categoryBreakdown_def breakdown_ignores_orphan [OF assms(1)])
  have s: "\<forall>x \<in> set (categoryBreakdown B F).
            spent x = sum_list (map Expense.amount
              (filter (\<lambda>e'. Expense.category e' = BreakdownEntry.category x) F))" for F
    by (auto simp: categoryBreakdown_def set_js_sort breakdownEntry_fields)
  from t b s show ?thesis by blast
qed

theorem orphan_category_asymmetry_witness:
  "Expense.category (mk_expense ''4'' 800 ''Gifts'' ''2024-01-11'')
      \<notin> Budget.category ` set sample_budgets
   \<and> Date_parse sample_runtime (Expense.date (mk_expense ''4'' 800 ''Gifts'' ''2024-01-11''))
      = Some (2024, 1, 11)
   \<and> getMonth sample_runtime (2024, 1, 11) = 0
   \<and> getFullYear sample_runtime (2024, 1, 11) = 2024
   \<and> totalSpent (filteredExpenses sample_runtime 0 2024
        (take 3 sample_expenses @ mk_expense ''4'' 800 ''Gifts'' ''2024-01-11''
           # drop 4 sample_expenses))
      = totalSpent (filteredExpenses sample_runtime 0 2024
          (take 3 sample_expenses @ drop 4 sample_expenses)) + 800
   \<and> categoryBreakdown sample_budgets (filteredExpenses sample_runtime 0 2024
        (take 3 sample_expenses @ mk_expense ''4'' 800 ''Gifts'' ''2024-01-11''
           # drop 4 sample_expenses))
      = categoryBreakdown sample_budgets (filteredExpenses sample_runtime 0 2024
          (take 3 sample_expenses @ drop 4 sample_expenses))"
proof -
  have h1: "Expense.category (mk_expense ''4'' 800 ''Gifts'' ''2024-01-11'')
      \<notin> Budget.category ` set sample_budgets"
    by (simp add: mk_expense_def sample_budgets_def)
  have h2: "Date_parse sample_runtime
      (Expense.date (mk_expense ''4'' 800 ''Gifts'' ''2024-01-11'')) = Some (2024, 1, 11)"
    by (simp add: mk_expense_def sample_runtime_def sample_Date_parse_def digits_value_def
        digit_value_def is_digit_def days_in_month_def)
  have h3: "getMonth sample_runtime (2024, 1, 11) = 0"
    by (simp add: sample_runtime_def)
  have h4: "getFullYear sample_runtime (2024, 1, 11) = 2024"
    by (simp add: sample_runtime_def)
  have a: "Expense.amount (mk_expense ''4'' 800 ''Gifts'' ''2024-01-11'') = 800"
    by (simp add: mk_expense_def)
  show ?thesis
    using orphan_category_asymmetry [OF h1 h2 h3 h4,
        of "take 3 sample_expenses" "drop 4 sample_expenses"] h1 h2 h3 h4
    unfolding a by blast
qed

section \<open>The budgets of the fetched state\<close>

lemma find_category_None:
  "(\<forall>r \<in> set rows. f r \<noteq> c) \<Longrightarrow> find (\<lambda>b. f b = c) rows = None"
  by (induction rows) auto

lemma find_category_distinct:
  "distinct (map f rows) \<Longrightarrow> r \<in> set rows \<Longrightarrow> find (\<lambda>b. f b = f r) rows = Some r"
  by (induction rows) (auto simp: rev_image_eqI)

lemma finalBudgets_categories:
  "map Budget.category (finalBudgets dbBudgets) = map Budget.category DEFAULT_BUDGETS"
proof -
  have k: "Budget.category (case find (\<lambda>b. BudgetRow.category b = Budget.category d) rows of
           Some found \<Rightarrow> \<lparr> Budget.category = BudgetRow.category found,
                                    Budget.limit = BudgetRow.budget_amount found \<rparr>
         | None \<Rightarrow> d) = Budget.category d" for d rows
    by (auto split: option.splits dest: find_Some_iff [THEN iffD1])
  show ?thesis
    by (cases dbBudgets) (simp_all add: finalBudgets_def k)
qed

lemma finalBudgets_limits:
  "map Budget.limit (finalBudgets (Some rows)) =
     map (\<lambda>d. case find (\<lambda>b. BudgetRow.category b = Budget.category d) rows of
                 Some found \<Rightarrow> BudgetRow.budget_amount found
               | None \<Rightarrow> Budget.limit d) DEFAULT_BUDGETS"
proof (cases rows)
  case Nil
  then show ?thesis by (simp add: finalBudgets_def)
next
  case (Cons a list)
  have k: "Budget.limit (case find (\<lambda>b. BudgetRow.category b = Budget.category d) rows of
           Some found \<Rightarrow> \<lparr> Budget.category = BudgetRow.category found,
                                    Budget.limit = BudgetRow.budget_amount found \<rparr>
         | None \<Rightarrow> d) = (case find (\<lambda>b. BudgetRow.category b = Budget.category d) rows of
                 Some found \<Rightarrow> BudgetRow.budget_amount found
               | None \<Rightarrow> Budget.limit d)" for d
    by (simp split: option.splits)
  show ?thesis
    by (simp add: finalBudgets_def k)
qed

lemma distinct_DEFAULT_BUDGETS: "distinct (map Budget.category DEFAULT_BUDGETS)"
  by (simp add: DEFAULT_BUDGETS_def)

lemma fetchState_resolves:
  "\<exists>st. fst (fetchState sb) = Resolved st
     \<and> (budgets st = DEFAULT_BUDGETS \<or> (\<exists>db. budgets st = finalBudgets db))"
  by (auto simp: fetchState_def defaultState_def split: option.splits prod.splits)

text \<open>
  C2. Whatever the store answers, \<^verbatim>\<open>fetchState\<close> resolves with a state whose budgets have
  the categories of the catalog, in catalog order, each once. When the user is signed in,
  the expense query succeeds and the budget query returns the rows \<open>rows\<close>, the limit at
  each catalog position is the amount of the first row of that category, and the catalog's
  default limit when there is no such row; with one row per category (the table's key), it
  is the amount of the row of that category.
\<close>

theorem fetchState_budgets_merge:
  "(\<exists>st. fst (fetchState sb) = Resolved st
      \<and> map Budget.category (budgets st) = map Budget.category DEFAULT_BUDGETS
      \<and> distinct (map Budget.category (budgets st)))
   \<and> (\<forall>uid dbExpenses rows.
        auth_getUser sb = Some uid \<longrightarrow> expenses_select sb uid = (dbExpenses, None) \<longrightarrow>
        budgets_select sb uid = Some rows \<longrightarrow>
        (\<exists>st. fst (fetchState sb) = Resolved st
           \<and> map Budget.limit (budgets st) =
               map (\<lambda>d. case find (\<lambda>b. BudgetRow.category b = Budget.category d) rows of
                           Some found \<Rightarrow> BudgetRow.budget_amount found
                         | None \<Rightarrow> Budget.limit d) DEFAULT_BUDGETS
           \<and> (\<forall>i < length DEFAULT_BUDGETS.
                 (\<forall>r \<in> set rows. distinct (map BudgetRow.category rows) \<longrightarrow>
                     BudgetRow.category r = Budget.category (DEFAULT_BUDGETS ! i) \<longrightarrow>
                     Budget.limit (budgets st ! i) = BudgetRow.budget_amount r)
               \<and> ((\<forall>r \<in> set rows.
                       BudgetRow.category r \<noteq> Budget.category (DEFAULT_BUDGETS ! i)) \<longrightarrow>
                     Budget.limit (budgets st ! i) = Budget.limit (DEFAULT_BUDGETS ! i)))))"
proof (intro conjI allI impI)
  obtain st where st: "fst (fetchState sb) = Resolved st"
    and b: "budgets st = DEFAULT_BUDGETS \<or> (\<exists>db. budgets st = finalBudgets db)"
    using fetchState_resolves by blast
  from b have "map Budget.category (budgets st) = map Budget.category DEFAULT_BUDGETS"
    by (auto simp: finalBudgets_categories)
  then have "distinct (map Budget.category (budgets st))"
    using distinct_DEFAULT_BUDGETS by simp
  with st \<open>map Budget.category (budgets st) = map Budget.category DEFAULT_BUDGETS\<close>
  show "\<exists>st. fst (fetchState sb) = Resolved st
      \<and> map Budget.category (budgets st) = map Budget.category DEFAULT_BUDGETS
      \<and> distinct (map Budget.category (budgets st))"
    by blast
next
  fix uid dbExpenses rows
  assume a: "auth_getUser sb = Some uid" "expenses_select sb uid = (dbExpenses, None)"
    "budgets_select sb uid = Some rows"
  define st where "st = \<lparr> expenses = map toExpense (case dbExpenses of None \<Rightarrow> []
                                                        | Some rows \<Rightarrow> rows),
                           budgets = finalBudgets (Some rows) \<rparr>"
  have r: "fst (fetchState sb) = Resolved st"
    using a by (simp add: fetchState_def st_def)
  have l: "map Budget.limit (budgets st) =
               map (\<lambda>d. case find (\<lambda>b. BudgetRow.category b = Budget.category d) rows of
                           Some found \<Rightarrow> BudgetRow.budget_amount found
                         | None \<Rightarrow> Budget.limit d) DEFAULT_BUDGETS"
    by (simp add: st_def finalBudgets_limits)
  have n: "length (budgets st) = length DEFAULT_BUDGETS"
    using arg_cong [OF l, of length] by simp
  have p: "Budget.limit (budgets st ! i) =
       (case find (\<lambda>b. BudgetRow.category b = Budget.category (DEFAULT_BUDGETS ! i)) rows of
                           Some found \<Rightarrow> BudgetRow.budget_amount found
                         | None \<Rightarrow> Budget.limit (DEFAULT_BUDGETS ! i))"
    if "i < length DEFAULT_BUDGETS" for i
  proof -
    have "Budget.limit (budgets st ! i) = map Budget.limit (budgets st) ! i"
      using that n by simp
    also have "\<dots> = (case find (\<lambda>b. BudgetRow.category b
                        = Budget.category (DEFAULT_BUDGETS ! i)) rows of
                           Some found \<Rightarrow> BudgetRow.budget_amount found
                         | None \<Rightarrow> Budget.limit (DEFAULT_BUDGETS ! i))"
      unfolding l using that by simp
    finally show ?thesis .
  qed
  have q: "\<forall>i < length DEFAULT_BUDGETS.
                 (\<forall>r \<in> set rows. distinct (map BudgetRow.category rows) \<longrightarrow>
                     BudgetRow.category r = Budget.category (DEFAULT_BUDGETS ! i) \<longrightarrow>
                     Budget.limit (budgets st ! i) = BudgetRow.budget_amount r)
               \<and> ((\<forall>r \<in> set rows.
                       BudgetRow.category r \<noteq> Budget.category (DEFAULT_BUDGETS ! i)) \<longrightarrow>
                     Budget.limit (budgets st ! i) = Budget.limit (DEFAULT_BUDGETS ! i))"
  proof (intro allI impI conjI ballI)
    fix i r assume i: "i < length DEFAULT_BUDGETS"
      and "r \<in> set rows" "distinct (map BudgetRow.category rows)"
      "BudgetRow.category r = Budget.category (DEFAULT_BUDGETS ! i)"
    then have "find (\<lambda>b. BudgetRow.category b = Budget.category (DEFAULT_BUDGETS ! i)) rows
        = Some r"
      using find_category_distinct [of BudgetRow.category rows r] by simp
    then show "Budget.limit (budgets st ! i) = BudgetRow.budget_amount r"
      by (simp add: p [OF i])
  next
    fix i assume i: "i < length DEFAULT_BUDGETS"
      and "\<forall>r \<in> set rows. BudgetRow.category r \<noteq> Budget.category (DEFAULT_BUDGETS ! i)"
    then have "find (\<lambda>b. BudgetRow.category b = Budget.category (DEFAULT_BUDGETS ! i)) rows
        = None"
      by (simp add: find_category_None)
    then show "Budget.limit (budgets st ! i) = Budget.limit (DEFAULT_BUDGETS ! i)"
      by (simp add: p [OF i])
  qed
  show "\<exists>st. fst (fetchState sb) = Resolved st
           \<and> map Budget.limit (budgets st) =
               map (\<lambda>d. case find (\<lambda>b. BudgetRow.category b = Budget.category d) rows of
                           Some found \<Rightarrow> BudgetRow.budget_amount found
                         | None \<Rightarrow> Budget.limit d) DEFAULT_BUDGETS
           \<and> (\<forall>i < length DEFAULT_BUDGETS.
                 (\<forall>r \<in> set rows. distinct (map BudgetRow.category rows) \<longrightarrow>
                     BudgetRow.category r = Budget.category (DEFAULT_BUDGETS ! i) \<longrightarrow>
                     Budget.limit (budgets st ! i) = BudgetRow.budget_amount r)
               \<and> ((\<forall>r \<in> set rows.
                       BudgetRow.category r \<noteq> Budget.category (DEFAULT_BUDGETS ! i)) \<longrightarrow>
                     Budget.limit (budgets st ! i) = Budget.limit (DEFAULT_BUDGETS ! i)))"
    by (rule exI [of _ st], intro conjI) (rule r, rule l, rule q)
qed

theorem fetchState_budgets_merge_witness:
  "auth_getUser sample_store = Some ''u1''
   \<and> expenses_select sample_store ''u1'' = (Some [row7], None)
   \<and> budgets_select sample_store ''u1''
        = Some [\<lparr> BudgetRow.category = ''Medical'', BudgetRow.budget_amount = 2500 \<rparr>]
   \<and> (\<exists>st. fst (fetchState sample_store) = Resolved st
         \<and> map Budget.limit (budgets st)
            = [10000, 5000, 2500, 5000, 3000, 5000, 3000, 2000, 1000, 3000, 1000, 2000,
               5000, 5000])"
proof -
  have h1: "auth_getUser sample_store = Some ''u1''"
    by (simp add: sample_store_def)
  have h2: "expenses_select sample_store ''u1'' = (Some [row7], None)"
    by (simp add: sample_store_def)
  have h3: "budgets_select sample_store ''u1''
        = Some [\<lparr> BudgetRow.category = ''Medical'', BudgetRow.budget_amount = 2500 \<rparr>]"
    by (simp add: sample_store_def)
  have v: "map (\<lambda>d. case find (\<lambda>b. BudgetRow.category b = Budget.category d)
                  [\<lparr> BudgetRow.category = ''Medical'', BudgetRow.budget_amount = 2500 \<rparr>] of
                           Some found \<Rightarrow> BudgetRow.budget_amount found
                         | None \<Rightarrow> Budget.limit d) DEFAULT_BUDGETS
      = [10000, 5000, 2500, 5000, 3000, 5000, 3000, 2000, 1000, 3000, 1000, 2000,
               5000, 5000]"
    by (simp add: DEFAULT_BUDGETS_def)
  from fetchState_budgets_merge [of sample_store] h1 h2 h3
  obtain st where "fst (fetchState sample_store) = Resolved st"
    and "map Budget.limit (budgets st) =
       map (\<lambda>d. case find (\<lambda>b. BudgetRow.category b = Budget.category d)
                  [\<lparr> BudgetRow.category = ''Medical'', BudgetRow.budget_amount = 2500 \<rparr>] of
                           Some found \<Rightarrow> BudgetRow.budget_amount found
                         | None \<Rightarrow> Budget.limit d) DEFAULT_BUDGETS"
    by blast
  with v h1 h2 h3 show ?thesis by simp
qed

section \<open>Operations without a signed-in user\<close>

text \<open>
  C3, as the claim states it, fails for \<^verbatim>\<open>saveBudgets\<close>: with nobody signed in it returns
  normally, with the same value as after a successful upsert, so the caller gets no
  failure signal.
\<close>

theorem saveBudgets_signed_out_counterexample:
  "auth_getUser signed_out = None
   \<and> saveBudgets signed_out sample_budgets = (Resolved (), [])
   \<and> auth_getUser empty_store = Some ''u1''
   \<and> length (snd (saveBudgets empty_store sample_budgets)) = 1
   \<and> fst (saveBudgets empty_store sample_budgets) = Resolved ()
   \<and> fst (saveBudgets signed_out sample_budgets) = fst (saveBudgets empty_store sample_budgets)"
  by (simp add: saveBudgets_def signed_out_def empty_store_def)

text \<open>
  C3, amended. Without a signed-in user no operation sends a query and none throws:
  \<^verbatim>\<open>fetchState\<close> returns the empty expense list with the default budgets, \<^verbatim>\<open>saveExpense\<close>
  and \<^verbatim>\<open>updateExpense\<close> return \<^verbatim>\<open>null\<close>, and \<^verbatim>\<open>saveBudgets\<close>, \<^verbatim>\<open>deleteBudget\<close> and
  \<^verbatim>\<open>clearUserData\<close> return normally without a value.
\<close>

theorem signed_out_operations:
  assumes "auth_getUser sb = None"
  shows "fetchState sb = (Resolved \<lparr> expenses = [], budgets = DEFAULT_BUDGETS \<rparr>, [])
       \<and> saveExpense rt sb expense specificDate = (Resolved None, [])
       \<and> updateExpense rt sb eid updates = (Resolved None, [])
       \<and> saveBudgets sb budgetList = (Resolved (), [])
       \<and> deleteBudget sb cat = (Resolved (), [])
       \<and> clearUserData sb = (Resolved (), [])"
  using assms
  by (simp add: fetchState_def defaultState_def saveExpense_def updateExpense_def
      saveBudgets_def deleteBudget_def clearUserData_def)

theorem signed_out_operations_witness:
  "auth_getUser signed_out = None
   \<and> fetchState signed_out = (Resolved \<lparr> expenses = [], budgets = DEFAULT_BUDGETS \<rparr>, [])
   \<and> saveExpense sample_runtime signed_out lunch (Some ''not-a-date'') = (Resolved None, [])
   \<and> updateExpense sample_runtime signed_out ''7'' amount_and_bad_date = (Resolved None, [])
   \<and> saveBudgets signed_out sample_budgets = (Resolved (), [])"
proof -
  have h: "auth_getUser signed_out = None"
    by (simp add: signed_out_def)
  show ?thesis
    using signed_out_operations [OF h, of sample_runtime lunch "Some ''not-a-date''" "''7''"
        amount_and_bad_date sample_budgets] h
    by blast
qed

section \<open>Reading an identifier\<close>

lemma parseInt_7: "parseInt sample_runtime ''7'' = Integer 7"
  by (simp add: parseInt_def skip_white_space.simps white_space_length_def
      white_space_chars_def is_digit_def digits_value_def digit_value_def
      sample_runtime_def nearest_double_def)

lemma filterId_7: "filterId sample_runtime ''7'' = FilterNumber (Integer 7)"
proof -
  have n: "nat_toString 7 = ''7''"
    by code_simp
  have t: "Number_toString sample_runtime 7 = ''7''"
    by (simp add: sample_runtime_def int_toString_def n)
  show ?thesis
    by (simp add: filterId_def parseInt_7 js_integer_toString_def t)
qed

section \<open>The payload of an update\<close>

text \<open>
  C4. The payload of \<^verbatim>\<open>updateExpense\<close> holds the amount, the category and the description
  exactly when the updates hold them, with the same values, and it holds \<^verbatim>\<open>created_at\<close>
  only for a date that is present and parses. A date that is present and does not parse
  leaves \<^verbatim>\<open>created_at\<close> out and nothing else: for a signed-in user the update is still
  sent, with this payload, the call resolves, and a row that the store returns is the
  result.
\<close>

theorem updateExpense_payload:
  "DbUpdates.amount (dbUpdates_of rt u) = ExpenseUpdates.amount u
   \<and> DbUpdates.category (dbUpdates_of rt u) = ExpenseUpdates.category u
   \<and> DbUpdates.description (dbUpdates_of rt u) = ExpenseUpdates.description u
   \<and> (\<forall>s. DbUpdates.created_at (dbUpdates_of rt u) = Some s \<longrightarrow>
          (\<exists>d t. ExpenseUpdates.date u = Some d \<and> Date_parse rt d = Some t
                 \<and> s = toISOString rt t))
   \<and> (\<forall>d. ExpenseUpdates.date u = Some d \<longrightarrow> Date_parse rt d = None \<longrightarrow>
          DbUpdates.created_at (dbUpdates_of rt u) = None)
   \<and> (\<forall>uid. auth_getUser sb = Some uid \<longrightarrow>
          (\<exists>r calls. updateExpense rt sb eid u
                = (Resolved r, Update_expense (dbUpdates_of rt u) (filterId rt eid) uid # calls))
        \<and> (\<forall>row rest.
              expenses_update sb (dbUpdates_of rt u) (filterId rt eid) uid
                = (Some (row # rest), None) \<longrightarrow>
              fst (updateExpense rt sb eid u) = Resolved (Some (toExpense row))))"
proof -
  have a: "DbUpdates.amount (dbUpdates_of rt u) = ExpenseUpdates.amount u
   \<and> DbUpdates.category (dbUpdates_of rt u) = ExpenseUpdates.category u
   \<and> DbUpdates.description (dbUpdates_of rt u) = ExpenseUpdates.description u"
    by (simp add: dbUpdates_of_def)
  have b: "\<forall>s. DbUpdates.created_at (dbUpdates_of rt u) = Some s \<longrightarrow>
          (\<exists>d t. ExpenseUpdates.date u = Some d \<and> Date_parse rt d = Some t
                 \<and> s = toISOString rt t)"
    by (auto simp: dbUpdates_of_def split: option.splits if_splits)
  have c: "\<forall>d. ExpenseUpdates.date u = Some d \<longrightarrow> Date_parse rt d = None \<longrightarrow>
          DbUpdates.created_at (dbUpdates_of rt u) = None"
    by (simp add: dbUpdates_of_def)
  have d: "\<exists>r calls. updateExpense rt sb eid u
                = (Resolved r, Update_expense (dbUpdates_of rt u) (filterId rt eid) uid # calls)"
    if "auth_getUser sb = Some uid" for uid
    using that
    by (simp add: updateExpense_def Let_def
        split: prod.splits option.splits list.splits filter_id.splits)
  have e: "fst (updateExpense rt sb eid u) = Resolved (Some (toExpense row))"
    if "auth_getUser sb = Some uid"
      "expenses_update sb (dbUpdates_of rt u) (filterId rt eid) uid = (Some (row # rest), None)"
    for uid row rest
    using that by (simp add: updateExpense_def Let_def)
  from a b c d e show ?thesis by blast
qed

theorem updateExpense_payload_witness:
  "ExpenseUpdates.date amount_and_bad_date = Some ''not-a-date''
   \<and> Date_parse sample_runtime ''not-a-date'' = None
   \<and> auth_getUser sample_store = Some ''u1''
   \<and> DbUpdates.amount (dbUpdates_of sample_runtime amount_and_bad_date) = Some 300
   \<and> DbUpdates.category (dbUpdates_of sample_runtime amount_and_bad_date) = None
   \<and> DbUpdates.created_at (dbUpdates_of sample_runtime amount_and_bad_date) = None
   \<and> fst (updateExpense sample_runtime sample_store ''7'' amount_and_bad_date)
       = Resolved (Some \<lparr> Expense.ident = ''7'', Expense.amount = 300,
           Expense.category = ''Food & Drinks'', Expense.description = ''Lunch'',
           Expense.date = ''2024-01-05'' \<rparr>)
   \<and> dbUpdates_of sample_runtime category_and_good_date
       = \<lparr> DbUpdates.amount = None, DbUpdates.category = Some ''Transport'',
           DbUpdates.description = None,
           DbUpdates.created_at = Some ''2024-02-10T00:00:00.000Z'' \<rparr>"
proof -
  have h1: "ExpenseUpdates.date amount_and_bad_date = Some ''not-a-date''"
    by (simp add: amount_and_bad_date_def)
  have h2: "Date_parse sample_runtime ''not-a-date'' = None"
    by (simp add: sample_runtime_def sample_Date_parse_def is_digit_def)
  have h3: "auth_getUser sample_store = Some ''u1''"
    by (simp add: sample_store_def)
  have f: "filterId sample_runtime ''7'' = FilterNumber (Integer 7)"
    by (rule filterId_7)
  have p: "dbUpdates_of sample_runtime amount_and_bad_date
      = \<lparr> DbUpdates.amount = Some 300, DbUpdates.category = None,
          DbUpdates.description = None, DbUpdates.created_at = None \<rparr>"
    by (simp add: dbUpdates_of_def amount_and_bad_date_def h2)
  have h4: "expenses_update sample_store (dbUpdates_of sample_runtime amount_and_bad_date)
       (filterId sample_runtime ''7'') ''u1''
     = (Some [apply_updates (dbUpdates_of sample_runtime amount_and_bad_date) row7], None)"
    by (simp add: sample_store_def f)
  have v: "toExpense (apply_updates (dbUpdates_of sample_runtime amount_and_bad_date) row7)
     = \<lparr> Expense.ident = ''7'', Expense.amount = 300,
           Expense.category = ''Food & Drinks'', Expense.description = ''Lunch'',
           Expense.date = ''2024-01-05'' \<rparr>"
    by (simp add: p toExpense_def apply_updates_def row7_def int_toString_def
        nat_toString.simps digit_char_def)
  have "fst (updateExpense sample_runtime sample_store ''7'' amount_and_bad_date)
       = Resolved (Some (toExpense
           (apply_updates (dbUpdates_of sample_runtime amount_and_bad_date) row7)))"
    using updateExpense_payload [of sample_runtime amount_and_bad_date sample_store "''7''"]
      h3 h4 by blast
  moreover have "dbUpdates_of sample_runtime category_and_good_date
       = \<lparr> DbUpdates.amount = None, DbUpdates.category = Some ''Transport'',
           DbUpdates.description = None,
           DbUpdates.created_at = Some ''2024-02-10T00:00:00.000Z'' \<rparr>"
  proof -
    have "sample_Date_parse ''2024-02-10'' = Some (2024, 2, 10)"
      by (simp add: sample_Date_parse_def digits_value_def digit_value_def is_digit_def
          days_in_month_def)
    moreover have "nat_toString 2024 = ''2024''" "nat_toString 2 = ''2''"
      "nat_toString 10 = ''10''"
      by code_simp+
    ultimately show ?thesis
      by (simp add: dbUpdates_of_def category_and_good_date_def sample_runtime_def pad_def)
  qed
  ultimately show ?thesis
    using h1 h2 h3 by (simp add: v) (simp add: p)
qed

section \<open>Printing and reading integers\<close>

lemma white_space_chars_hd:
  "\<forall>w \<in> set white_space_chars.
     w \<noteq> [] \<and> ((of_char (hd w) :: nat) \<in> {9, 10, 11, 12, 13, 32}
                \<or> 128 \<le> (of_char (hd w) :: nat))"
  by (simp add: white_space_chars_def)

lemma white_space_length_ascii:
  assumes "(of_char c :: nat) < 128" and "(of_char c :: nat) \<notin> {9, 10, 11, 12, 13, 32}"
  shows "white_space_length (c # r) = 0"
proof -
  have "take (Suc k) (c # r) \<notin> set white_space_chars" for k
  proof
    assume "take (Suc k) (c # r) \<in> set white_space_chars"
    with white_space_chars_hd
    have "(of_char (hd (take (Suc k) (c # r))) :: nat) \<in> {9, 10, 11, 12, 13, 32}
        \<or> 128 \<le> (of_char (hd (take (Suc k) (c # r))) :: nat)"
      by blast
    with assms show False by simp
  qed
  from this [of 0] this [of 1] this [of 2] show ?thesis
    by (simp add: white_space_length_def numeral_2_eq_2 numeral_3_eq_3)
qed

lemma skip_white_space_digit: "is_digit c \<Longrightarrow> skip_white_space (c # r) = c # r"
  using white_space_length_ascii [of c r]
  by (simp add: skip_white_space.simps is_digit_def)

lemma skip_white_space_minus: "skip_white_space (CHR ''-'' # r) = CHR ''-'' # r"
  using white_space_length_ascii [of "CHR ''-''" r]
  by (simp add: skip_white_space.simps)

lemma is_digit_not_sign: "is_digit c \<Longrightarrow> c \<noteq> CHR ''-'' \<and> c \<noteq> CHR ''+''"
  by (auto simp: is_digit_def)

lemma digit_char_props:
  assumes "k < 10"
  shows "is_digit (digit_char k)" and "digit_value (digit_char k) = k"
proof -
  from assms have "k \<in> {0, 1, 2, 3, 4, 5, 6, 7, 8, 9}" by auto
  then show "is_digit (digit_char k)" and "digit_value (digit_char k) = k"
    by (auto simp: digit_char_def is_digit_def digit_value_def)
qed

lemma nat_toString_digits: "list_all is_digit (nat_toString n) \<and> nat_toString n \<noteq> []"
proof (induction n rule: nat_toString.induct)
  case (1 n)
  show ?case
  proof (cases "n < 10")
    case True
    then show ?thesis
      by (simp add: nat_toString.simps [of n] digit_char_props)
  next
    case False
    with 1 show ?thesis
      by (simp add: nat_toString.simps [of n] digit_char_props)
  qed
qed

lemma digits_value_snoc: "digits_value (ds @ [c]) = 10 * digits_value ds + digit_value c"
  by (simp add: digits_value_def)

lemma digits_value_nat_toString: "digits_value (nat_toString n) = n"
proof (induction n rule: nat_toString.induct)
  case (1 n)
  show ?case
  proof (cases "n < 10")
    case True
    then show ?thesis
      by (simp add: nat_toString.simps [of n] digits_value_def digit_char_props)
  next
    case False
    with 1 show ?thesis
      by (simp add: nat_toString.simps [of n] digits_value_snoc digit_char_props)
  qed
qed

lemma takeWhile_all: "list_all P xs \<Longrightarrow> takeWhile P xs = xs"
  by (induction xs) simp_all

lemma parseInt_nat_toString:
  assumes "Number_of_nat rt n = Some n"
  shows "parseInt rt (nat_toString n) = Integer (int n)"
proof -
  obtain c r where s: "nat_toString n = c # r"
    using nat_toString_digits [of n] by (cases "nat_toString n") auto
  have d: "is_digit c"
    using nat_toString_digits [of n] s by simp
  have k: "skip_white_space (c # r) = c # r"
    using d by (rule skip_white_space_digit)
  have t: "takeWhile is_digit (c # r) = c # r"
    using nat_toString_digits [of n] takeWhile_all [of is_digit "c # r"] s by simp
  have v: "digits_value (c # r) = n"
    using digits_value_nat_toString [of n] s by simp
  show ?thesis
    unfolding parseInt_def s k Let_def
    using is_digit_not_sign [OF d] by (simp add: t v assms del: takeWhile.simps)
qed

lemma parseInt_minus_nat_toString:
  assumes "Number_of_nat rt n = Some n"
  shows "parseInt rt (CHR ''-'' # nat_toString n) = Integer (- int n)"
proof -
  have t: "takeWhile is_digit (nat_toString n) = nat_toString n"
    using nat_toString_digits [of n] takeWhile_all by blast
  have e: "nat_toString n \<noteq> []"
    using nat_toString_digits by blast
  show ?thesis
    unfolding parseInt_def skip_white_space_minus Let_def
    using e by (simp add: t digits_value_nat_toString assms)
qed

lemma parseInt_int_toString:
  assumes "Number_of_nat rt (nat \<bar>i\<bar>) = Some (nat \<bar>i\<bar>)"
  shows "parseInt rt (int_toString i) = Integer i"
proof (cases "i < 0")
  case True
  then have n: "nat \<bar>i\<bar> = nat (- i)" by simp
  show ?thesis
    using True parseInt_minus_nat_toString [of rt "nat (- i)"] assms
    by (simp add: int_toString_def n)
next
  case False
  then have n: "nat \<bar>i\<bar> = nat i" by simp
  show ?thesis
    using False parseInt_nat_toString [of rt "nat i"] assms
    by (simp add: int_toString_def n)
qed

lemma filterId_int_toString:
  assumes "Number_of_nat rt (nat \<bar>i\<bar>) = Some (nat \<bar>i\<bar>)"
    and "Number_toString rt (real_of_int i) = int_toString i"
  shows "filterId rt (int_toString i) = FilterNumber (Integer i)"
  by (simp add: filterId_def parseInt_int_toString [OF assms(1)] js_integer_toString_def
      assms(2))

text \<open>
  Beyond \<open>2^53\<close> the runtime rounds: the sample runtime reads \<^verbatim>\<open>9007199254740993\<close> as
  \<open>9007199254740992\<close>, whose digits are not the identifier, so the identifier is matched as
  a string, in one attempt.
\<close>

lemma filterId_beyond_safe_integers:
  "parseInt sample_runtime ''9007199254740993'' = Integer 9007199254740992
   \<and> filterId sample_runtime ''9007199254740993'' = FilterString ''9007199254740993''
   \<and> length (snd (updateExpense sample_runtime sample_store ''9007199254740993''
        amount_and_bad_date)) = 1"
proof -
  have b: "bit_length 9007199254740993 = 54"
    by (simp add: bit_length.simps)
  have r: "nearest_double 9007199254740993 = Some 9007199254740992"
    by (simp add: nearest_double_def b Let_def)
  have p: "parseInt sample_runtime ''9007199254740993'' = Integer 9007199254740992"
    by (simp add: parseInt_def skip_white_space.simps white_space_length_def
        white_space_chars_def is_digit_def digits_value_def digit_value_def)
      (simp add: sample_runtime_def r)
  have n: "nat_toString 9007199254740992 = ''9007199254740992''"
    by (simp add: nat_toString.simps digit_char_def)
  have t: "Number_toString sample_runtime 9007199254740992 = ''9007199254740992''"
    by (simp add: sample_runtime_def int_toString_def n)
  have f: "filterId sample_runtime ''9007199254740993'' = FilterString ''9007199254740993''"
    by (simp add: filterId_def p js_integer_toString_def t)
  have u: "length (snd (updateExpense sample_runtime sample_store ''9007199254740993''
        amount_and_bad_date)) = 1"
    by (simp add: updateExpense_def Let_def f sample_store_def)
  from p f u show ?thesis by simp
qed

section \<open>The attempts of an update\<close>

text \<open>
  C5, as the claim states it, fails: the identifier \<^verbatim>\<open>007\<close> is not a canonical numeric
  string, the first attempt matches it as a string and finds no row, and \<^verbatim>\<open>updateExpense\<close>
  returns \<^verbatim>\<open>null\<close> after this one attempt, although the number 7 that \<^verbatim>\<open>parseInt\<close> reads
  from it is the key of a row.
\<close>

theorem updateExpense_string_id_counterexample:
  "auth_getUser sample_store = Some ''u1''
   \<and> filterId sample_runtime ''007'' = FilterString ''007''
   \<and> expenses_update sample_store (dbUpdates_of sample_runtime amount_and_bad_date)
        (FilterString ''007'') ''u1'' = (Some [], None)
   \<and> parseInt sample_runtime ''007'' = Integer 7
   \<and> fst (expenses_update sample_store (dbUpdates_of sample_runtime amount_and_bad_date)
        (FilterNumber (Integer 7)) ''u1'') \<noteq> Some []
   \<and> updateExpense sample_runtime sample_store ''007'' amount_and_bad_date
       = (Resolved None,
          [Update_expense (dbUpdates_of sample_runtime amount_and_bad_date)
             (FilterString ''007'') ''u1''])"
proof -
  have p: "parseInt sample_runtime ''007'' = Integer 7"
    by (simp add: parseInt_def skip_white_space.simps white_space_length_def
        white_space_chars_def is_digit_def digits_value_def digit_value_def
        sample_runtime_def nearest_double_def)
  have n: "nat_toString 7 = ''7''"
    by code_simp
  have t: "Number_toString sample_runtime 7 = ''7''"
    by (simp add: sample_runtime_def int_toString_def n)
  have f: "filterId sample_runtime ''007'' = FilterString ''007''"
    by (simp add: filterId_def p js_integer_toString_def t)
  show ?thesis
    by (simp add: p f) (simp add: updateExpense_def f sample_store_def)
qed

text \<open>
  C5, amended. For a signed-in user the first attempt matches by the number when the
  identifier is a canonical numeric string, that is when \<^verbatim>\<open>parseInt\<close> reads a Number from
  it whose \<^verbatim>\<open>toString\<close> is the identifier again, and by the string otherwise. The decimal
  form of an integer that the runtime reads and prints exactly, as it does up to \<open>2^53\<close>, is
  such a string. When the first attempt reports no error and returns no row, and it matched
  by the number, exactly one retry is made, by the string, and its first row, if any, is
  the result. When it matched by the string, no retry is made and the result is \<^verbatim>\<open>null\<close>.
  In every other case there is the one attempt: an error gives \<^verbatim>\<open>null\<close>, a row is returned.
\<close>

theorem updateExpense_attempts:
  assumes "auth_getUser sb = Some uid"
  shows
    "(let p = dbUpdates_of rt u;
          first = expenses_update sb p (filterId rt eid) uid;
          retry = expenses_update sb p (FilterString eid) uid;
          zero = (snd first = None \<and> (fst first = None \<or> fst first = Some []));
          numeric = (parseInt rt eid \<noteq> NaN \<and> js_integer_toString rt (parseInt rt eid) = eid)
      in filterId rt eid = (if numeric then FilterNumber (parseInt rt eid) else FilterString eid)
       \<and> (\<forall>i. Number_of_nat rt (nat \<bar>i\<bar>) = Some (nat \<bar>i\<bar>) \<longrightarrow>
               Number_toString rt (real_of_int i) = int_toString i \<longrightarrow>
               filterId rt (int_toString i) = FilterNumber (Integer i))
       \<and> snd (updateExpense rt sb eid u)
           = (if zero \<and> numeric
              then [Update_expense p (filterId rt eid) uid,
                    Update_expense p (FilterString eid) uid]
              else [Update_expense p (filterId rt eid) uid])
       \<and> (zero \<and> numeric \<longrightarrow>
            fst (updateExpense rt sb eid u)
              = (case fst retry of
                   Some (row # rest) \<Rightarrow> Resolved (Some (toExpense row))
                 | _ \<Rightarrow> Resolved None))
       \<and> (zero \<and> \<not> numeric \<longrightarrow> fst (updateExpense rt sb eid u) = Resolved None)
       \<and> (snd first \<noteq> None \<longrightarrow> fst (updateExpense rt sb eid u) = Resolved None)
       \<and> (\<forall>row rest. first = (Some (row # rest), None) \<longrightarrow>
            fst (updateExpense rt sb eid u) = Resolved (Some (toExpense row))))"
proof -
  define p where "p = dbUpdates_of rt u"
  define first where "first = expenses_update sb p (filterId rt eid) uid"
  define numeric where
    "numeric \<longleftrightarrow> parseInt rt eid \<noteq> NaN \<and> js_integer_toString rt (parseInt rt eid) = eid"
  define zero where "zero \<longleftrightarrow> snd first = None \<and> (fst first = None \<or> fst first = Some [])"
  have a: "\<forall>i. Number_of_nat rt (nat \<bar>i\<bar>) = Some (nat \<bar>i\<bar>) \<longrightarrow>
               Number_toString rt (real_of_int i) = int_toString i \<longrightarrow>
               filterId rt (int_toString i) = FilterNumber (Integer i)"
    by (simp add: filterId_int_toString)
  have b: "filterId rt eid = (if numeric then FilterNumber (parseInt rt eid) else FilterString eid)"
    by (auto simp: filterId_def numeric_def Let_def)
  have d: "snd (updateExpense rt sb eid u)
           = (if zero \<and> numeric
              then [Update_expense p (filterId rt eid) uid,
                    Update_expense p (FilterString eid) uid]
              else [Update_expense p (filterId rt eid) uid])"
  proof (cases first)
    case (Pair data err)
    then have e: "expenses_update sb (dbUpdates_of rt u) (filterId rt eid) uid = (data, err)"
      by (simp add: first_def p_def)
    show ?thesis
    proof (cases numeric)
      case True
      with b have "filterId rt eid = FilterNumber (parseInt rt eid)" by simp
      with assms e Pair True show ?thesis
        by (auto simp: updateExpense_def Let_def zero_def p_def
            split: option.splits list.splits)
    next
      case False
      with b have "filterId rt eid = FilterString eid" by simp
      with assms e Pair False show ?thesis
        by (auto simp: updateExpense_def Let_def zero_def p_def
            split: option.splits list.splits)
    qed
  qed
  have f: "fst (updateExpense rt sb eid u)
              = (case fst (expenses_update sb p (FilterString eid) uid) of
                   Some (row # rest) \<Rightarrow> Resolved (Some (toExpense row))
                 | _ \<Rightarrow> Resolved None)"
    if "zero" "numeric"
  proof -
    from that b have k: "filterId rt eid = FilterNumber (parseInt rt eid)" by simp
    obtain data err where "first = (data, err)" by (cases first)
    with that(1) have e: "expenses_update sb (dbUpdates_of rt u)
        (FilterNumber (parseInt rt eid)) uid = (data, None)"
      and z: "data = None \<or> data = Some []"
      by (auto simp: zero_def first_def p_def k)
    from z show ?thesis
      using assms e k
      by (auto simp: updateExpense_def Let_def p_def split: option.splits list.splits)
  qed
  have g: "fst (updateExpense rt sb eid u) = Resolved None" if "zero" "\<not> numeric"
  proof -
    from that b have k: "filterId rt eid = FilterString eid" by simp
    obtain data err where "first = (data, err)" by (cases first)
    with that(1) have e: "expenses_update sb (dbUpdates_of rt u) (FilterString eid) uid
        = (data, None)" and z: "data = None \<or> data = Some []"
      by (auto simp: zero_def first_def p_def k)
    from z show ?thesis
      using assms e k
      by (auto simp: updateExpense_def Let_def)
  qed
  have h: "fst (updateExpense rt sb eid u) = Resolved None" if "snd first \<noteq> None"
  proof -
    from that obtain err where "snd first = Some err"
      by (cases "snd first") auto
    then have "first = (fst first, Some err)"
      by (cases first) simp
    then obtain data where "first = (data, Some err)" ..
    then have "expenses_update sb (dbUpdates_of rt u) (filterId rt eid) uid = (data, Some err)"
      by (simp add: first_def p_def)
    with assms show ?thesis
      by (simp add: updateExpense_def Let_def split: option.splits list.splits)
  qed
  have i: "\<forall>row rest. first = (Some (row # rest), None) \<longrightarrow>
            fst (updateExpense rt sb eid u) = Resolved (Some (toExpense row))"
    using assms by (simp add: updateExpense_def Let_def first_def p_def)
  from a b d f g h i show ?thesis
    unfolding Let_def p_def [symmetric] first_def [symmetric] numeric_def [symmetric]
      zero_def [symmetric]
    by blast
qed

theorem updateExpense_attempts_witness:
  "auth_getUser string_key_store = Some ''u1''
   \<and> Number_of_nat sample_runtime (nat \<bar>7\<bar>) = Some (nat \<bar>7\<bar>)
   \<and> Number_toString sample_runtime (real_of_int 7) = int_toString 7
   \<and> int_toString 7 = ''7''
   \<and> filterId sample_runtime ''7'' = FilterNumber (Integer 7)
   \<and> expenses_update string_key_store (dbUpdates_of sample_runtime amount_and_bad_date)
        (FilterNumber (Integer 7)) ''u1'' = (Some [], None)
   \<and> snd (updateExpense sample_runtime string_key_store ''7'' amount_and_bad_date)
       = [Update_expense (dbUpdates_of sample_runtime amount_and_bad_date)
            (FilterNumber (Integer 7)) ''u1'',
          Update_expense (dbUpdates_of sample_runtime amount_and_bad_date)
            (FilterString ''7'') ''u1'']
   \<and> fst (updateExpense sample_runtime string_key_store ''7'' amount_and_bad_date)
       = Resolved (Some (toExpense (apply_updates
           (dbUpdates_of sample_runtime amount_and_bad_date)
           (row7 \<lparr> row_id := IdString ''7'' \<rparr>))))"
proof -
  have h: "auth_getUser string_key_store = Some ''u1''"
    by (simp add: string_key_store_def sample_store_def)
  have i: "int_toString 7 = ''7''"
    by (simp add: int_toString_def nat_toString.simps digit_char_def)
  have n: "Number_of_nat sample_runtime (nat \<bar>7\<bar>) = Some (nat \<bar>7\<bar>)"
    by (simp add: sample_runtime_def nearest_double_def)
  have t: "Number_toString sample_runtime (real_of_int 7) = int_toString 7"
    by (simp add: sample_runtime_def)
  note T = updateExpense_attempts [OF h, of sample_runtime amount_and_bad_date "''7''",
      unfolded Let_def]
  have f: "filterId sample_runtime ''7'' = FilterNumber (Integer 7)"
    using T [THEN conjunct2, THEN conjunct1, THEN spec, of 7, THEN mp, OF n, THEN mp, OF t]
    by (simp add: i)
  have q: "parseInt sample_runtime ''7'' = Integer 7"
    using parseInt_int_toString [of sample_runtime 7, OF n] by (simp add: i)
  have k: "js_integer_toString sample_runtime (Integer 7) = ''7''"
    using t by (simp add: js_integer_toString_def i)
  have z: "expenses_update string_key_store (dbUpdates_of sample_runtime amount_and_bad_date)
        (FilterNumber (Integer 7)) ''u1'' = (Some [], None)"
    by (simp add: string_key_store_def)
  have r: "expenses_update string_key_store (dbUpdates_of sample_runtime amount_and_bad_date)
        (FilterString ''7'') ''u1''
      = (Some [apply_updates (dbUpdates_of sample_runtime amount_and_bad_date)
           (row7 \<lparr> row_id := IdString ''7'' \<rparr>)], None)"
    by (simp add: string_key_store_def)
  have c: "snd (updateExpense sample_runtime string_key_store ''7'' amount_and_bad_date)
       = [Update_expense (dbUpdates_of sample_runtime amount_and_bad_date)
            (FilterNumber (Integer 7)) ''u1'',
          Update_expense (dbUpdates_of sample_runtime amount_and_bad_date)
            (FilterString ''7'') ''u1'']"
    using T [THEN conjunct2, THEN conjunct2, THEN conjunct1]
    unfolding f z by (simp add: q k)
  have v: "fst (updateExpense sample_runtime string_key_store ''7'' amount_and_bad_date)
       = Resolved (Some (toExpense (apply_updates
           (dbUpdates_of sample_runtime amount_and_bad_date)
           (row7 \<lparr> row_id := IdString ''7'' \<rparr>))))"
    using T [THEN conjunct2, THEN conjunct2, THEN conjunct2, THEN conjunct1]
    unfolding f z r by (simp add: q k)
  from h n t i f z c v show ?thesis
    by (intro conjI)
qed

section \<open>Exceptions that leave an operation\<close>

text \<open>
  When does an operation reject? \<^verbatim>\<open>saveExpense\<close> exactly for an explicit date that is not
  empty and does not parse; \<^verbatim>\<open>saveBudgets\<close> exactly when the upsert reports an error, which
  it throws on purpose; the other operations never.
\<close>

lemma saveExpense_rejects_iff:
  assumes "auth_getUser sb = Some uid"
  shows "(\<exists>exn. fst (saveExpense rt sb expense specificDate) = Rejected exn)
     \<longleftrightarrow> (\<exists>s. specificDate = Some s \<and> s \<noteq> [] \<and> Date_parse rt s = None)"
  using assms
  by (auto simp: saveExpense_def insert_created_at_def Let_def
      split: option.splits sum.splits prod.splits list.splits if_splits)

lemma saveBudgets_rejects_iff:
  assumes "auth_getUser sb = Some uid"
  shows "(\<exists>exn. fst (saveBudgets sb budgetList) = Rejected exn)
     \<longleftrightarrow> budgets_upsert sb (map (\<lambda>b. \<lparr> BudgetData.user_id = uid,
                                        BudgetData.category = Budget.category b,
                                        BudgetData.budget_amount = Budget.limit b \<rparr>) budgetList)
           \<noteq> None"
  using assms by (auto simp: saveBudgets_def Let_def split: option.splits)

lemma saveBudgets_failing_upsert:
  "saveBudgets failing_upsert_store [] = (Rejected (StoreError ''timeout''),
     [Upsert_budgets []])"
  by (simp add: saveBudgets_def failing_upsert_store_def empty_store_def signed_out_def)

lemma other_operations_resolve:
  "(\<exists>st. fst (fetchState sb) = Resolved st)
   \<and> (\<exists>r. fst (updateExpense rt sb eid u) = Resolved r)
   \<and> fst (deleteBudget sb cat) = Resolved ()
   \<and> fst (clearUserData sb) = Resolved ()"
proof -
  have "\<exists>st. fst (fetchState sb) = Resolved st"
    by (auto simp: fetchState_def split: option.splits prod.splits)
  moreover have "\<exists>r. fst (updateExpense rt sb eid u) = Resolved r"
    by (simp add: updateExpense_def Let_def
        split: prod.splits option.splits list.splits filter_id.splits)
  moreover have "fst (deleteBudget sb cat) = Resolved ()"
    by (simp add: deleteBudget_def split: option.splits)
  moreover have "fst (clearUserData sb) = Resolved ()"
    by (simp add: clearUserData_def split: option.splits)
  ultimately show ?thesis by blast
qed

text \<open>
  C6 at the failing input. For a signed-in user, \<^verbatim>\<open>saveExpense\<close> with the explicit date
  \<^verbatim>\<open>not-a-date\<close> rejects with the \<^verbatim>\<open>RangeError\<close> of \<^verbatim>\<open>toISOString\<close>, before any query is
  sent. \<^verbatim>\<open>updateExpense\<close> checks the same date and leaves it out of its payload.
\<close>

theorem saveExpense_invalid_date_rejects:
  "auth_getUser sample_store = Some ''u1''
   \<and> Date_parse sample_runtime ''not-a-date'' = None
   \<and> saveExpense sample_runtime sample_store lunch (Some ''not-a-date'')
        = (Rejected RangeError, [])
   \<and> DbUpdates.created_at (dbUpdates_of sample_runtime amount_and_bad_date) = None
   \<and> fst (updateExpense sample_runtime sample_store ''7'' amount_and_bad_date)
        = Resolved (Some \<lparr> Expense.ident = ''7'', Expense.amount = 300,
            Expense.category = ''Food & Drinks'', Expense.description = ''Lunch'',
            Expense.date = ''2024-01-05'' \<rparr>)"
proof -
  have d: "Date_parse sample_runtime ''not-a-date'' = None"
    by (simp add: sample_runtime_def sample_Date_parse_def is_digit_def)
  have f: "filterId sample_runtime ''7'' = FilterNumber (Integer 7)"
    by (rule filterId_7)
  have p: "dbUpdates_of sample_runtime amount_and_bad_date
      = \<lparr> DbUpdates.amount = Some 300, DbUpdates.category = None,
          DbUpdates.description = None, DbUpdates.created_at = None \<rparr>"
    by (simp add: dbUpdates_of_def amount_and_bad_date_def d)
  have s: "saveExpense sample_runtime sample_store lunch (Some ''not-a-date'')
        = (Rejected RangeError, [])"
    by (simp add: saveExpense_def insert_created_at_def d sample_store_def)
  have u: "fst (updateExpense sample_runtime sample_store ''7'' amount_and_bad_date)
        = Resolved (Some \<lparr> Expense.ident = ''7'', Expense.amount = 300,
            Expense.category = ''Food & Drinks'', Expense.description = ''Lunch'',
            Expense.date = ''2024-01-05'' \<rparr>)"
    by (simp add: updateExpense_def Let_def f p sample_store_def toExpense_def
        apply_updates_def row7_def int_toString_def nat_toString.simps digit_char_def)
  from d s u show ?thesis
    by (simp add: sample_store_def p)
qed

section \<open>The sign of edited limits and amounts\<close>

lemma parseInt_empty: "parseInt rt [] = NaN"
  by (simp add: parseInt_def skip_white_space.simps white_space_length_def)

text \<open>
  C8, as the claim states it, fails: typing \<^verbatim>\<open>-5\<close> into a budget input makes the handler
  call \<^verbatim>\<open>onUpdateBudget\<close> with the limit \<open>-5\<close>, and typing \<^verbatim>\<open>-3.5\<close> into the amount input
  of the edit form stores the amount \<open>-3.5\<close>, which \<^verbatim>\<open>handleUpdate\<close> and \<^verbatim>\<open>updateExpense\<close>
  send to the store as it is.
\<close>

theorem negative_input_counterexample:
  "handleInputChange sample_runtime ''Grocery'' ''-5'' = Some (''Grocery'', Integer (- 5))
   \<and> \<not> nonnegative (Integer (- 5))
   \<and> 0 \<le> Expense.amount lunch_special
   \<and> Expense.amount (amount_onChange lunch_special ''-3.5'') = -3.5
   \<and> DbUpdates.amount (dbUpdates_of sample_runtime
        (handleUpdate_updates (amount_onChange lunch_special ''-3.5''))) = Some (-3.5)"
proof -
  have a: "parseInt sample_runtime ''-5'' = Integer (- 5)"
    by (simp add: parseInt_def skip_white_space.simps white_space_length_def
        white_space_chars_def is_digit_def digits_value_def digit_value_def
        sample_runtime_def nearest_double_def)
  have b: "parseFloat ''-3.5'' = Some (-3.5)"
    by (simp add: parseFloat_def skip_white_space.simps white_space_length_def
        white_space_chars_def is_digit_def digits_value_def digit_value_def)
  show ?thesis
    by (simp add: handleInputChange_def a nonnegative_def amount_onChange_def b
        lunch_special_def dbUpdates_of_def handleUpdate_updates_def)
qed

text \<open>
  C8, amended. The handlers pass on the number they read, whatever its sign. The budget
  handler calls \<^verbatim>\<open>onUpdateBudget\<close>, for the same category, with the Number that \<^verbatim>\<open>parseInt\<close>
  reads whenever that is not \<^verbatim>\<open>NaN\<close>, and with \<open>0\<close> for the empty input; it makes no call
  exactly when \<^verbatim>\<open>parseInt\<close> reads \<^verbatim>\<open>NaN\<close> from an input that is not empty. The limit it
  passes is non-negative exactly when the Number read is, or none is read. The amount of the
  edit form becomes the number that \<^verbatim>\<open>parseFloat\<close> reads, or \<open>0\<close> when it reads none; it is
  non-negative exactly when the number read is, and it is the amount of the payload of the
  update.
\<close>

theorem edited_values_keep_sign:
  "handleInputChange rt cat v
     = (if parseInt rt v \<noteq> NaN then Some (cat, parseInt rt v)
        else if v = [] then Some (cat, Integer 0)
        else None)
   \<and> (handleInputChange rt cat v = None \<longleftrightarrow> parseInt rt v = NaN \<and> v \<noteq> [])
   \<and> (v = [] \<longrightarrow> handleInputChange rt cat v = Some (cat, Integer 0))
   \<and> (\<forall>c l. handleInputChange rt cat v = Some (c, l) \<longrightarrow>
          c = cat \<and> l \<noteq> NaN
          \<and> (nonnegative l \<longleftrightarrow> parseInt rt v = NaN \<or> nonnegative (parseInt rt v)))
   \<and> Expense.amount (amount_onChange e v) = (case parseFloat v of None \<Rightarrow> 0 | Some x \<Rightarrow> x)
   \<and> (0 \<le> Expense.amount (amount_onChange e v) \<longleftrightarrow> (\<forall>x. parseFloat v = Some x \<longrightarrow> 0 \<le> x))
   \<and> DbUpdates.amount (dbUpdates_of rt (handleUpdate_updates (amount_onChange e v)))
       = Some (Expense.amount (amount_onChange e v))"
proof -
  have a: "handleInputChange rt cat v
     = (if parseInt rt v \<noteq> NaN then Some (cat, parseInt rt v)
        else if v = [] then Some (cat, Integer 0)
        else None)"
    by (simp add: handleInputChange_def Let_def)
  have b: "handleInputChange rt cat v = None \<longleftrightarrow> parseInt rt v = NaN \<and> v \<noteq> []"
    by (simp add: a)
  have c: "v = [] \<longrightarrow> handleInputChange rt cat v = Some (cat, Integer 0)"
    by (simp add: handleInputChange_def parseInt_empty)
  have d: "\<forall>c l. handleInputChange rt cat v = Some (c, l) \<longrightarrow>
          c = cat \<and> l \<noteq> NaN
          \<and> (nonnegative l \<longleftrightarrow> parseInt rt v = NaN \<or> nonnegative (parseInt rt v))"
    by (auto simp: a nonnegative_def split: if_splits)
  have f: "Expense.amount (amount_onChange e v)
      = (case parseFloat v of None \<Rightarrow> 0 | Some x \<Rightarrow> x)"
    by (simp add: amount_onChange_def split: option.splits)
  have g: "0 \<le> Expense.amount (amount_onChange e v)
      \<longleftrightarrow> (\<forall>x. parseFloat v = Some x \<longrightarrow> 0 \<le> x)"
    by (auto simp: f split: option.splits)
  have h: "DbUpdates.amount (dbUpdates_of rt (handleUpdate_updates (amount_onChange e v)))
       = Some (Expense.amount (amount_onChange e v))"
    by (simp add: dbUpdates_of_def handleUpdate_updates_def)
  from a b c d f g h show ?thesis
    by (intro conjI)
qed

theorem edited_values_keep_sign_witness:
  "parseInt sample_runtime ''1200'' = Integer 1200
   \<and> handleInputChange sample_runtime ''Grocery'' ''1200'' = Some (''Grocery'', Integer 1200)
   \<and> nonnegative (Integer 1200)
   \<and> parseInt sample_runtime ''abc'' = NaN
   \<and> handleInputChange sample_runtime ''Grocery'' ''abc'' = None
   \<and> handleInputChange sample_runtime ''Grocery'' [] = Some (''Grocery'', Integer 0)
   \<and> parseFloat ''12.5'' = Some 12.5
   \<and> Expense.amount (amount_onChange lunch_special ''12.5'') = 12.5
   \<and> 0 \<le> Expense.amount (amount_onChange lunch_special ''12.5'')"
proof -
  have a: "parseInt sample_runtime ''1200'' = Integer 1200"
    by (simp add: parseInt_def skip_white_space.simps white_space_length_def
        white_space_chars_def is_digit_def digits_value_def digit_value_def
        sample_runtime_def nearest_double_def)
  have n: "parseInt sample_runtime ''abc'' = NaN"
    by (simp add: parseInt_def skip_white_space.simps white_space_length_def
        white_space_chars_def is_digit_def)
  have b: "parseFloat ''12.5'' = Some 12.5"
    by (simp add: parseFloat_def skip_white_space.simps white_space_length_def
        white_space_chars_def is_digit_def digits_value_def digit_value_def)
  note T1 = edited_values_keep_sign [where rt = sample_runtime and cat = "''Grocery''"
      and v = "''1200''" and e = lunch_special]
  note T2 = edited_values_keep_sign [where rt = sample_runtime and cat = "''Grocery''"
      and v = "''abc''" and e = lunch_special]
  note T3 = edited_values_keep_sign [where rt = sample_runtime and cat = "''Grocery''"
      and v = "[]" and e = lunch_special]
  note T4 = edited_values_keep_sign [where rt = sample_runtime and cat = "''Grocery''"
      and v = "''12.5''" and e = lunch_special]
  have c: "handleInputChange sample_runtime ''Grocery'' ''1200''
      = Some (''Grocery'', Integer 1200)"
    using T1 [THEN conjunct1] by (simp add: a)
  have d: "handleInputChange sample_runtime ''Grocery'' ''abc'' = None"
    using T2 [THEN conjunct2, THEN conjunct1] by (simp add: n)
  have e: "handleInputChange sample_runtime ''Grocery'' [] = Some (''Grocery'', Integer 0)"
    using T3 [THEN conjunct2, THEN conjunct2, THEN conjunct1] by simp
  have f: "Expense.amount (amount_onChange lunch_special ''12.5'') = 12.5"
    using T4 [THEN conjunct2, THEN conjunct2, THEN conjunct2, THEN conjunct2, THEN conjunct1]
    by (simp add: b)
  have g: "nonnegative (Integer 1200)"
    by (simp add: nonnegative_def)
  from a c g n d e b f show ?thesis
    by simp
qed

section \<open>The CSV export\<close>

lemma csv_unescape_other:
  "c \<noteq> CHR 0x22 \<Longrightarrow> csv_unescape (c # xs) = map_option ((#) c) (csv_unescape xs)"
  by (cases xs) simp_all

lemma csv_unescape_escape:
  "csv_unescape (concat (map (\<lambda>c. if c = CHR 0x22 then [CHR 0x22, CHR 0x22] else [c]) s))
     = Some s"
  by (induction s) (simp_all add: csv_unescape_other)

lemma csv_unquote_quote: "csv_unquote (csv_quote s) = Some s"
  by (simp add: csv_unquote_def csv_quote_def csv_unescape_escape butlast_append)

lemma sample_date_2024_01_05: "sample_Date_parse ''2024-01-05'' = Some (2024, 1, 5)"
  by (simp add: sample_Date_parse_def digits_value_def digit_value_def is_digit_def
      days_in_month_def)

lemma sample_numerals:
  "nat_toString 2024 = ''2024''" "nat_toString (Suc 0) = ''1''" "nat_toString 5 = ''5''"
  "nat_toString 3 = ''3''" "nat_toString 9 = ''9''" "nat_toString 250 = ''250''"
  by code_simp+

text \<open>
  C9, as the claim states it, fails for the row of the scenario: the date is written as the
  locale of the runtime formats it, and in the locale \<^verbatim>\<open>en-GB\<close> the same export gives the
  date \<^verbatim>\<open>05/01/2024\<close>, not \<^verbatim>\<open>1/5/2024\<close>.
\<close>

theorem export_locale_counterexample:
  \<open>Date_parse en_GB_runtime ''2024-01-05'' = Some (2024, 1, 5)
   \<and> handleExportCSV en_GB_runtime (2024, 3, 9) ''Asha'' [lunch_special]
     = Some (''smartspend-expenses-2024-03-09.csv'',
             ''User,Date,Category,Amount (INR),Description'' @ [CHR 0x0A]
               @ ''"Asha",05/01/2024,Food & Drinks,250,"Lunch ""special"""'')
   \<and> handleExportCSV en_GB_runtime (2024, 3, 9) ''Asha'' [lunch_special]
     \<noteq> Some (''smartspend-expenses-2024-03-09.csv'',
             ''User,Date,Category,Amount (INR),Description'' @ [CHR 0x0A]
               @ ''"Asha",1/5/2024,Food & Drinks,250,"Lunch ""special"""'')\<close>
proof -
  have d: "Date_parse en_GB_runtime ''2024-01-05'' = Some (2024, 1, 5)"
    by (simp add: en_GB_runtime_def sample_runtime_def sample_date_2024_01_05)
  have l: "toLocaleDateString en_GB_runtime (2024, Suc 0, 5) = ''05/01/2024''"
    by (simp add: en_GB_runtime_def sample_numerals pad_def)
  have m: "Number_toString en_GB_runtime 250 = ''250''"
    by (simp add: en_GB_runtime_def sample_runtime_def int_toString_def sample_numerals)
  have r: \<open>csv_row en_GB_runtime ''Asha'' lunch_special
      = [''"Asha"'', ''05/01/2024'', ''Food & Drinks'', ''250'', ''"Lunch ""special"""'']\<close>
    by (simp add: csv_row_def csv_quote_def localeDate_def lunch_special_def d l m)
  have t: "before_T (toISOString en_GB_runtime (2024, 3, 9)) = ''2024-03-09''"
    by (simp add: before_T_def en_GB_runtime_def sample_runtime_def sample_numerals pad_def)
  have v: \<open>handleExportCSV en_GB_runtime (2024, 3, 9) ''Asha'' [lunch_special]
     = Some (''smartspend-expenses-2024-03-09.csv'',
             ''User,Date,Category,Amount (INR),Description'' @ [CHR 0x0A]
               @ ''"Asha",05/01/2024,Food & Drinks,250,"Lunch ""special"""'')\<close>
    by (simp add: handleExportCSV_def Let_def r t csv_headers_def)
  show ?thesis
    unfolding v using d by simp
qed

text \<open>
  C9, amended. For a non-empty list of expenses whose categories hold neither a comma nor a
  quote, as no category of the catalog does, the export is the header line
  \<^verbatim>\<open>User,Date,Category,Amount (INR),Description\<close> followed by one line per expense, in
  order, joined by line feeds; a line is the quoted user name, the locale-formatted date,
  the category, the amount and the quoted description, joined by commas. The user name and
  the description are always quoted, with each quote inside doubled, so that reading the
  quoted field back gives the original string. In a runtime that formats the date
  \<^verbatim>\<open>2024-01-05\<close> as \<^verbatim>\<open>1/5/2024\<close> and prints \<open>250\<close> as \<^verbatim>\<open>250\<close>, the expense of the scenario
  gives, for the user \<^verbatim>\<open>Asha\<close>, the row of the claim.
\<close>

theorem handleExportCSV_content:
  \<open>(exps \<noteq> [] \<longrightarrow>
      (\<forall>e \<in> set exps. CHR '','' \<notin> set (Expense.category e)
                       \<and> CHR 0x22 \<notin> set (Expense.category e)) \<longrightarrow>
      (\<exists>name. handleExportCSV rt now user exps
         = Some (name,
             join [CHR 0x0A]
               (''User,Date,Category,Amount (INR),Description''
                # map (\<lambda>e. csv_quote user @ '','' @ localeDate rt (Expense.date e) @ '',''
                            @ Expense.category e @ '','' @ Number_toString rt (Expense.amount e)
                            @ '','' @ csv_quote (Expense.description e)) exps))))
   \<and> (\<forall>b \<in> set DEFAULT_BUDGETS. CHR '','' \<notin> set (Budget.category b)
                                  \<and> CHR 0x22 \<notin> set (Budget.category b))
   \<and> csv_unquote (csv_quote s) = Some s
   \<and> (Date_parse rt ''2024-01-05'' = Some t \<longrightarrow> toLocaleDateString rt t = ''1/5/2024'' \<longrightarrow>
      Number_toString rt 250 = ''250'' \<longrightarrow>
      (\<exists>name. handleExportCSV rt now ''Asha'' [lunch_special]
         = Some (name, ''User,Date,Category,Amount (INR),Description'' @ [CHR 0x0A]
                   @ ''"Asha",1/5/2024,Food & Drinks,250,"Lunch ""special"""'')))\<close>
proof (intro conjI impI)
  assume "exps \<noteq> []"
  have h: "join '','' csv_headers = ''User,Date,Category,Amount (INR),Description''"
    by (simp add: csv_headers_def)
  have r: "map (join '','' \<circ> csv_row rt user) exps
      = map (\<lambda>e. csv_quote user @ '','' @ localeDate rt (Expense.date e) @ '',''
                            @ Expense.category e @ '','' @ Number_toString rt (Expense.amount e)
                            @ '','' @ csv_quote (Expense.description e)) exps"
    by (simp add: csv_row_def)
  from \<open>exps \<noteq> []\<close> show "\<exists>name. handleExportCSV rt now user exps
         = Some (name,
             join [CHR 0x0A]
               (''User,Date,Category,Amount (INR),Description''
                # map (\<lambda>e. csv_quote user @ '','' @ localeDate rt (Expense.date e) @ '',''
                            @ Expense.category e @ '','' @ Number_toString rt (Expense.amount e)
                            @ '','' @ csv_quote (Expense.description e)) exps))"
    by (simp add: handleExportCSV_def Let_def h r)
next
  show "\<forall>b \<in> set DEFAULT_BUDGETS. CHR '','' \<notin> set (Budget.category b)
                                  \<and> CHR 0x22 \<notin> set (Budget.category b)"
    by (simp add: DEFAULT_BUDGETS_def)
next
  show "csv_unquote (csv_quote s) = Some s"
    by (rule csv_unquote_quote)
next
  assume a: "Date_parse rt ''2024-01-05'' = Some t" "toLocaleDateString rt t = ''1/5/2024''"
    "Number_toString rt 250 = ''250''"
  have r: \<open>csv_row rt ''Asha'' lunch_special
      = [''"Asha"'', ''1/5/2024'', ''Food & Drinks'', ''250'', ''"Lunch ""special"""'']\<close>
    by (simp add: csv_row_def csv_quote_def localeDate_def lunch_special_def a)
  show \<open>\<exists>name. handleExportCSV rt now ''Asha'' [lunch_special]
         = Some (name, ''User,Date,Category,Amount (INR),Description'' @ [CHR 0x0A]
                   @ ''"Asha",1/5/2024,Food & Drinks,250,"Lunch ""special"""'')\<close>
    by (simp add: handleExportCSV_def Let_def r csv_headers_def)
qed

theorem handleExportCSV_content_witness:
  \<open>Date_parse sample_runtime ''2024-01-05'' = Some (2024, 1, 5)
   \<and> toLocaleDateString sample_runtime (2024, 1, 5) = ''1/5/2024''
   \<and> Number_toString sample_runtime 250 = ''250''
   \<and> [lunch_special] \<noteq> []
   \<and> CHR '','' \<notin> set (Expense.category lunch_special)
   \<and> CHR 0x22 \<notin> set (Expense.category lunch_special)
   \<and> (\<exists>name. handleExportCSV sample_runtime (2024, 3, 9) ''Asha'' [lunch_special]
         = Some (name, ''User,Date,Category,Amount (INR),Description'' @ [CHR 0x0A]
                   @ ''"Asha",1/5/2024,Food & Drinks,250,"Lunch ""special"""''))\<close>
proof -
  have h1: "Date_parse sample_runtime ''2024-01-05'' = Some (2024, 1, 5)"
    by (simp add: sample_runtime_def sample_date_2024_01_05)
  have h2: "toLocaleDateString sample_runtime (2024, 1, 5) = ''1/5/2024''"
    by (simp add: sample_runtime_def sample_numerals)
  have h3: "Number_toString sample_runtime 250 = ''250''"
    by (simp add: sample_runtime_def int_toString_def sample_numerals)
  have h4: "CHR '','' \<notin> set (Expense.category lunch_special)
      \<and> CHR 0x22 \<notin> set (Expense.category lunch_special)"
    by (simp add: lunch_special_def)
  have \<open>\<exists>name. handleExportCSV sample_runtime (2024, 3, 9) ''Asha'' [lunch_special]
         = Some (name, ''User,Date,Category,Amount (INR),Description'' @ [CHR 0x0A]
                   @ ''"Asha",1/5/2024,Food & Drinks,250,"Lunch ""special"""'')\<close>
    using handleExportCSV_content [where rt = sample_runtime and t = "(2024, 1, 5)"
        and now = "(2024, 3, 9)", THEN conjunct2, THEN conjunct2, THEN conjunct2,
        THEN mp, OF h1, THEN mp, OF h2, THEN mp, OF h3] .
  with h1 h2 h3 h4 show ?thesis
    by simp
qed

text \<open>
  Outside the amended claim: a category that holds a comma is written as it is, without
  quotes, so that its row has six fields.
\<close>

lemma export_category_written_raw:
  \<open>csv_row sample_runtime ''Asha'' comma_category
     = [''"Asha"'', ''1/5/2024'', ''Food, Drinks'', ''250'', ''"Lunch"'']\<close>
  by (simp add: csv_row_def csv_quote_def localeDate_def comma_category_def
      sample_runtime_def sample_date_2024_01_05 sample_numerals int_toString_def)

section \<open>The extraction of an expense from a message\<close>

text \<open>
  C10. \<^verbatim>\<open>parseExpenseMessage\<close> always resolves, with a parsed value or with \<^verbatim>\<open>null\<close>: it
  never rejects. A constructor that throws, a call that the model rejects, a response
  without text and a text that \<^verbatim>\<open>JSON.parse\<close> refuses each give \<^verbatim>\<open>null\<close>, and a value other
  than \<^verbatim>\<open>null\<close> is what \<^verbatim>\<open>JSON.parse\<close> made of the trimmed text of the response.
\<close>

theorem parseExpenseMessage_never_throws:
  "(\<exists>r. parseExpenseMessage rt ai now message = Resolved r)
   \<and> (construct ai \<noteq> None \<longrightarrow> parseExpenseMessage rt ai now message = Resolved None)
   \<and> (construct ai = None \<longrightarrow>
        (\<forall>err. generateContent ai message (systemInstruction (before_T (toISOString rt now)))
                 = Inl err \<longrightarrow>
               parseExpenseMessage rt ai now message = Resolved None)
      \<and> (generateContent ai message (systemInstruction (before_T (toISOString rt now)))
                 = Inr None \<longrightarrow>
               parseExpenseMessage rt ai now message = Resolved None)
      \<and> (\<forall>text. generateContent ai message (systemInstruction (before_T (toISOString rt now)))
                 = Inr (Some text) \<longrightarrow>
               parseExpenseMessage rt ai now message = Resolved (JSON_parse ai (trim text))))
   \<and> (\<forall>v. parseExpenseMessage rt ai now message = Resolved (Some v) \<longrightarrow>
        (\<exists>text. generateContent ai message (systemInstruction (before_T (toISOString rt now)))
                   = Inr (Some text)
               \<and> JSON_parse ai (trim text) = Some v))"
  by (auto simp: parseExpenseMessage_def parseExpenseMessage_try_def Let_def
      split: option.splits sum.splits)

theorem parseExpenseMessage_never_throws_witness:
  "construct sample_genai = None
   \<and> generateContent sample_genai ''lunch 250''
        (systemInstruction (before_T (toISOString sample_runtime (2024, 3, 9))))
       = Inr (Some '' {} '')
   \<and> parseExpenseMessage sample_runtime sample_genai (2024, 3, 9) ''lunch 250''
       = Resolved (Some ''{}'')
   \<and> construct (sample_genai \<lparr> construct := Some ConstructorError \<rparr>) \<noteq> None
   \<and> parseExpenseMessage sample_runtime (sample_genai \<lparr> construct := Some ConstructorError \<rparr>)
        (2024, 3, 9) ''lunch 250'' = Resolved None"
proof -
  have h1: "construct sample_genai = None"
    by (simp add: sample_genai_def)
  have h2: "generateContent sample_genai ''lunch 250''
        (systemInstruction (before_T (toISOString sample_runtime (2024, 3, 9))))
       = Inr (Some '' {} '')"
    by (simp add: sample_genai_def)
  have t: "JSON_parse sample_genai (trim '' {} '') = Some ''{}''"
    by (simp add: sample_genai_def trim_def is_white_space_def)
  have "construct sample_genai = None \<longrightarrow>
        (\<forall>err. generateContent sample_genai ''lunch 250''
                 (systemInstruction (before_T (toISOString sample_runtime (2024, 3, 9))))
                 = Inl err \<longrightarrow>
               parseExpenseMessage sample_runtime sample_genai (2024, 3, 9) ''lunch 250''
                 = Resolved None)
      \<and> (generateContent sample_genai ''lunch 250''
                 (systemInstruction (before_T (toISOString sample_runtime (2024, 3, 9))))
                 = Inr None \<longrightarrow>
               parseExpenseMessage sample_runtime sample_genai (2024, 3, 9) ''lunch 250''
                 = Resolved None)
      \<and> (\<forall>text. generateContent sample_genai ''lunch 250''
                 (systemInstruction (before_T (toISOString sample_runtime (2024, 3, 9))))
                 = Inr (Some text) \<longrightarrow>
               parseExpenseMessage sample_runtime sample_genai (2024, 3, 9) ''lunch 250''
                 = Resolved (JSON_parse sample_genai (trim text)))"
    using parseExpenseMessage_never_throws [where rt = sample_runtime and ai = sample_genai
        and now = "(2024, 3, 9)" and message = "''lunch 250''"]
    by (rule conjunct2 [THEN conjunct2, THEN conjunct1])
  from this [THEN mp, OF h1, THEN conjunct2, THEN conjunct2, THEN spec, THEN mp, OF h2]
  have "parseExpenseMessage sample_runtime sample_genai (2024, 3, 9) ''lunch 250''
       = Resolved (Some ''{}'')"
    unfolding t .
  moreover have h3: "construct (sample_genai \<lparr> construct := Some ConstructorError \<rparr>) \<noteq> None"
    by simp
  moreover have "parseExpenseMessage sample_runtime
        (sample_genai \<lparr> construct := Some ConstructorError \<rparr>) (2024, 3, 9) ''lunch 250''
      = Resolved None"
    using parseExpenseMessage_never_throws [where rt = sample_runtime
        and ai = "sample_genai \<lparr> construct := Some ConstructorError \<rparr>"
        and now = "(2024, 3, 9)" and message = "''lunch 250''",
        THEN conjunct2, THEN conjunct1, THEN mp, OF h3] .
  ultimately show ?thesis
    using h1 h2 by (intro conjI)
qed

end
